theory Spec2Isabelle
  imports Main
begin

section \<open>HealthVault: record lifecycle and attachment management\<close>

text \<open>
  A shallow embedding of \<^verbatim>\<open>Backend/controllers/recordController.js\<close>,
  \<^verbatim>\<open>Backend/controllers/userController.js\<close> (\<^verbatim>\<open>deleteAccount\<close>),
  \<^verbatim>\<open>Backend/multer.js\<close>, \<^verbatim>\<open>Backend/models/Record.js\<close> and the route
  pipelines of \<^verbatim>\<open>Backend/routes/records.js\<close>.

  The handlers are asynchronous JavaScript over three pieces of outside state: the
  MongoDB collection of records, the upload directory on disk, and the collection of
  users. The model threads them through every call as one \<open>World\<close> value, together with
  a trace of the effects performed, in the order the code performs them. Every
  \<^verbatim>\<open>throw\<close> of the source is a branch that ends in the handler's \<^verbatim>\<open>catch\<close>;
  effects done before the throw stay in the world that is returned.
\<close>

subsection \<open>Data model (models/Record.js)\<close>

type_synonym ObjectId = string

text \<open>\<^verbatim>\<open>vitalsSchema\<close>: five optional strings; \<open>None\<close> is JavaScript's \<^verbatim>\<open>undefined\<close>.\<close>

record Vitals =
  bloodPressure :: "string option"
  heartRate :: "string option"
  bloodSugar :: "string option"
  weight :: "string option"
  height :: "string option"

text \<open>The sub-document that the object literal \<^verbatim>\<open>{}\<close> casts to.\<close>

definition emptyVitals :: Vitals where
  "emptyVitals = \<lparr>bloodPressure = None, heartRate = None, bloodSugar = None,
                   weight = None, height = None\<rparr>"

text \<open>\<^verbatim>\<open>files\<close>: both slots are strings with default \<^verbatim>\<open>''\<close>.\<close>

record Files =
  labReport :: string
  prescription :: string

text \<open>
  A stored record. Its \<^verbatim>\<open>_id\<close> is the key it is stored under. \<open>title\<close> is an option
  because a document in memory can lack it (\<^verbatim>\<open>undefined\<close>) before validation runs.
  The time stamps \<^verbatim>\<open>createdAt\<close> and \<^verbatim>\<open>updatedAt\<close> are kept by the mapper and are not
  modelled.
\<close>

record RecordDoc =
  user :: ObjectId
  title :: "string option"
  medicalHistory :: string
  doctorNotes :: string
  vitals :: Vitals
  files :: Files

text \<open>
  A mongoose document in memory: its \<^verbatim>\<open>_id\<close>, its fields, whether it was made by
  \<^verbatim>\<open>new Record(...)\<close> and not yet saved, and whether an assignment to it failed to cast
  (mongoose records the cast error on the document and \<^verbatim>\<open>save()\<close> rejects).
\<close>

record Document =
  doc_id :: ObjectId
  doc :: RecordDoc
  isNew :: bool
  invalidated :: bool

subsection \<open>The world, its effects and the environment\<close>

datatype event =
    FileWritten string
  | Unlinked string
  | UnlinkFailed string
  | Saved ObjectId
  | DeletedOne ObjectId
  | DeletedMany ObjectId
  | UserDeleted ObjectId

text \<open>
  \<open>records\<close> is the collection of records by \<^verbatim>\<open>_id\<close>, \<open>users\<close> the ids of the
  existing users, \<open>disk\<close> the regular files by full path with their contents
  (directories are not modelled), and \<open>trace\<close> the effects performed so far, oldest
  first.
\<close>

record World =
  records :: "ObjectId \<rightharpoonup> RecordDoc"
  users :: "ObjectId set"
  disk :: "string \<rightharpoonup> string"
  trace :: "event list"

datatype repo_op =
    FindById string
  | Save ObjectId
  | DeleteOne ObjectId
  | DeleteMany ObjectId
  | FindByIdAndDelete ObjectId

datatype exn = SyntaxError | ValidationError | MongoError

datatype payload =
    Message string
  | RecordJson ObjectId RecordDoc
  | ErrMessage repo_op

record Response =
  status :: nat
  json :: payload

text \<open>
  What the code takes from outside the repository, as parameters:
  \<^item> \<open>JSON_parse\<close>: JavaScript's \<^verbatim>\<open>JSON.parse\<close>; \<open>None\<close> when it throws a SyntaxError.
    The type \<open>'j\<close> is the type of parsed JSON values.
  \<^item> \<open>castVitals\<close>: mongoose casting a parsed value to \<^verbatim>\<open>vitalsSchema\<close>; \<open>None\<close> when
    the value cannot be cast.
  \<^item> \<open>path_join\<close>: Node's \<^verbatim>\<open>path.join\<close>; \<open>dirname\<close>: \<^verbatim>\<open>__dirname\<close> of \<^verbatim>\<open>Backend/\<close>.
  \<^item> \<open>repoFails\<close>: whether a call to the database rejects (connection lost, malformed
    id and the like).
  \<^item> \<open>unlinkFails\<close>: whether \<^verbatim>\<open>fs.unlinkSync\<close> throws on a path that exists.
  \<^item> \<open>newObjectId\<close>: the \<^verbatim>\<open>_id\<close> that \<^verbatim>\<open>new Record(...)\<close> generates.
  \<^item> \<open>protect\<close>: the authentication middleware \<^verbatim>\<open>middleware/auth\<close>, which is not among
    the sources: from the Authorization header, either the response it ends the request
    with or the authenticated user's id.
\<close>

record 'j Env =
  JSON_parse :: "string \<Rightarrow> 'j option"
  castVitals :: "'j \<Rightarrow> Vitals option"
  path_join :: "string list \<Rightarrow> string"
  dirname :: string
  repoFails :: "repo_op \<Rightarrow> bool"
  unlinkFails :: "string \<Rightarrow> bool"
  newObjectId :: ObjectId
  protect :: "string option \<Rightarrow> Response + ObjectId"

subsection \<open>Requests\<close>

text \<open>\<^verbatim>\<open>req.body\<close>: multipart text fields; \<open>None\<close> is a field absent from the request.\<close>

record Body =
  body_title :: "string option"
  body_medicalHistory :: "string option"
  body_doctorNotes :: "string option"
  body_vitals :: "string option"

text \<open>
  \<^verbatim>\<open>req.files\<close>: for each slot, the \<^verbatim>\<open>filename\<close> of \<^verbatim>\<open>req.files.<slot>[0]\<close> when the
  upload middleware stored a file for it.
\<close>

record ReqFiles =
  file_labReport :: "string option"
  file_prescription :: "string option"

record Request =
  params_id :: string
  user_id :: ObjectId
  body :: Body
  req_files :: ReqFiles

subsection \<open>recordController.js: helpers\<close>

definition buildPublicPath :: "string \<Rightarrow> string \<Rightarrow> string" where
  "buildPublicPath folder filename = ''/uploads/'' @ folder @ ''/'' @ filename"

text \<open>\<^verbatim>\<open>__dirname\<close> inside \<^verbatim>\<open>controllers/\<close>.\<close>

definition controllers_dirname :: "'j Env \<Rightarrow> string" where
  "controllers_dirname env = dirname env @ ''/controllers''"

definition fullPathOf :: "'j Env \<Rightarrow> string \<Rightarrow> string" where
  "fullPathOf env publicPath = path_join env [controllers_dirname env, ''..'', publicPath]"

text \<open>
  \<^verbatim>\<open>deleteFileIfExists\<close>: nothing for a falsy path (the empty string), nothing when the
  file does not exist; otherwise one \<^verbatim>\<open>unlinkSync\<close>, whose failure is caught and logged.
\<close>

definition deleteFileIfExists :: "'j Env \<Rightarrow> string \<Rightarrow> World \<Rightarrow> World" where
  "deleteFileIfExists env publicPath w =
     (if publicPath = [] then w
      else
        let fullPath = fullPathOf env publicPath in
        (case disk w fullPath of
           None \<Rightarrow> w
         | Some content \<Rightarrow>
             if unlinkFails env fullPath
             then w\<lparr>trace := trace w @ [UnlinkFailed fullPath]\<rparr>
             else w\<lparr>disk := (disk w)(fullPath := None),
                    trace := trace w @ [Unlinked fullPath]\<rparr>))"

subsection \<open>The mapper: validation and save\<close>

text \<open>
  \<^verbatim>\<open>record.save()\<close>. Validation runs first: a recorded cast error fails it, and so does
  a \<^verbatim>\<open>title\<close> that is undefined or the empty string (\<^verbatim>\<open>required: true\<close> on a String path
  rejects both). Then the write: it can reject, and the insert of a new document rejects
  on a duplicate \<^verbatim>\<open>_id\<close>.
\<close>

definition validationFails :: "Document \<Rightarrow> bool" where
  "validationFails d =
     (invalidated d \<or> title (doc d) = None \<or> title (doc d) = Some [])"

definition save :: "'j Env \<Rightarrow> Document \<Rightarrow> World \<Rightarrow> exn + World" where
  "save env d w =
     (if validationFails d then Inl ValidationError
      else if repoFails env (Save (doc_id d)) then Inl MongoError
      else if isNew d \<and> records w (doc_id d) \<noteq> None then Inl MongoError
      else Inr (w\<lparr>records := (records w)(doc_id d \<mapsto> doc d),
                  trace := trace w @ [Saved (doc_id d)]\<rparr>))"

text \<open>
  Reading a \<^verbatim>\<open>vitals\<close> text field the way both handlers do: a falsy value (absent or the
  empty string) is not parsed; anything else goes through \<^verbatim>\<open>JSON.parse\<close>, which may
  throw.
\<close>

definition parseVitalsField :: "'j Env \<Rightarrow> string option \<Rightarrow> exn + 'j option" where
  "parseVitalsField env v =
     (case v of
        None \<Rightarrow> Inr None
      | Some s \<Rightarrow>
          if s = [] then Inr None
          else (case JSON_parse env s of
                  None \<Rightarrow> Inl SyntaxError
                | Some j \<Rightarrow> Inr (Some j)))"

text \<open>Assigning a parsed value to \<^verbatim>\<open>record.vitals\<close>: cast, or record the cast error.\<close>

definition setVitals :: "'j Env \<Rightarrow> 'j \<Rightarrow> Document \<Rightarrow> Document" where
  "setVitals env j d =
     (case castVitals env j of
        None \<Rightarrow> d\<lparr>invalidated := True\<rparr>
      | Some v \<Rightarrow> d\<lparr>doc := (doc d)\<lparr>vitals := v\<rparr>\<rparr>)"

definition setLabReport :: "string \<Rightarrow> Document \<Rightarrow> Document" where
  "setLabReport p d = d\<lparr>doc := (doc d)\<lparr>files := (files (doc d))\<lparr>labReport := p\<rparr>\<rparr>\<rparr>"

definition setPrescription :: "string \<Rightarrow> Document \<Rightarrow> Document" where
  "setPrescription p d =
     d\<lparr>doc := (doc d)\<lparr>files := (files (doc d))\<lparr>prescription := p\<rparr>\<rparr>\<rparr>"

subsection \<open>recordController.js: createRecord\<close>

definition createFailed :: Response where
  "createFailed = \<lparr>status = 500, json = Message ''Create record failed''\<rparr>"

text \<open>
  \<^verbatim>\<open>new Record({user, title, medicalHistory, doctorNotes, vitals: ..., files: {}})\<close>:
  the schema defaults fill \<^verbatim>\<open>medicalHistory\<close>, \<^verbatim>\<open>doctorNotes\<close> and both file slots.
\<close>

definition newRecord ::
  "'j Env \<Rightarrow> ObjectId \<Rightarrow> Body \<Rightarrow> 'j option \<Rightarrow> Document" where
  "newRecord env userId b parsed =
     (let d = \<lparr>doc_id = newObjectId env,
               doc = \<lparr>user = userId,
                         title = body_title b,
                         medicalHistory = (case body_medicalHistory b of None \<Rightarrow> [] | Some s \<Rightarrow> s),
                         doctorNotes = (case body_doctorNotes b of None \<Rightarrow> [] | Some s \<Rightarrow> s),
                         vitals = emptyVitals,
                         files = \<lparr>labReport = [], prescription = []\<rparr>\<rparr>,
               isNew = True,
               invalidated = False\<rparr>
      in (case parsed of None \<Rightarrow> d | Some j \<Rightarrow> setVitals env j d))"

definition createRecord :: "'j Env \<Rightarrow> Request \<Rightarrow> World \<Rightarrow> Response \<times> World" where
  "createRecord env req w =
     (case parseVitalsField env (body_vitals (body req)) of
        Inl e \<Rightarrow> (createFailed, w)
      | Inr parsed \<Rightarrow>
          let record0 = newRecord env (user_id req) (body req) parsed;
              record1 = (case file_labReport (req_files req) of
                           None \<Rightarrow> record0
                         | Some fn \<Rightarrow> setLabReport (buildPublicPath ''records'' fn) record0);
              record2 = (case file_prescription (req_files req) of
                           None \<Rightarrow> record1
                         | Some fn \<Rightarrow> setPrescription (buildPublicPath ''records'' fn) record1)
          in (case save env record2 w of
                Inl e \<Rightarrow> (createFailed, w)
              | Inr w' \<Rightarrow>
                  (\<lparr>status = 201, json = RecordJson (doc_id record2) (doc record2)\<rparr>, w')))"

subsection \<open>recordController.js: updateRecord\<close>

definition updateFailed :: Response where
  "updateFailed = \<lparr>status = 500, json = Message ''Update record failed''\<rparr>"

definition notFound :: Response where
  "notFound = \<lparr>status = 404, json = Message ''Record not found''\<rparr>"

definition notAuthorized :: Response where
  "notAuthorized = \<lparr>status = 401, json = Message ''Not authorized''\<rparr>"

text \<open>Lines 94 to 98: a text field is assigned when it is not \<^verbatim>\<open>undefined\<close>.\<close>

definition assignTextFields :: "Body \<Rightarrow> Document \<Rightarrow> Document" where
  "assignTextFields b d =
     (let d1 = (case body_title b of
                  None \<Rightarrow> d
                | Some t \<Rightarrow> d\<lparr>doc := (doc d)\<lparr>title := Some t\<rparr>\<rparr>);
          d2 = (case body_medicalHistory b of
                  None \<Rightarrow> d1
                | Some s \<Rightarrow> d1\<lparr>doc := (doc d1)\<lparr>medicalHistory := s\<rparr>\<rparr>);
          d3 = (case body_doctorNotes b of
                  None \<Rightarrow> d2
                | Some s \<Rightarrow> d2\<lparr>doc := (doc d2)\<lparr>doctorNotes := s\<rparr>\<rparr>)
      in d3)"

text \<open>Lines 105 to 111 and 114 to 120: delete the old file, then point at the new one.\<close>

definition replaceLabReport ::
  "'j Env \<Rightarrow> string option \<Rightarrow> Document \<times> World \<Rightarrow> Document \<times> World" where
  "replaceLabReport env f dw =
     (case f of
        None \<Rightarrow> dw
      | Some fn \<Rightarrow>
          (setLabReport (buildPublicPath ''records'' fn) (fst dw),
           deleteFileIfExists env (labReport (files (doc (fst dw)))) (snd dw)))"

definition replacePrescription ::
  "'j Env \<Rightarrow> string option \<Rightarrow> Document \<times> World \<Rightarrow> Document \<times> World" where
  "replacePrescription env f dw =
     (case f of
        None \<Rightarrow> dw
      | Some fn \<Rightarrow>
          (setPrescription (buildPublicPath ''records'' fn) (fst dw),
           deleteFileIfExists env (prescription (files (doc (fst dw)))) (snd dw)))"

definition updateRecord :: "'j Env \<Rightarrow> Request \<Rightarrow> World \<Rightarrow> Response \<times> World" where
  "updateRecord env req w =
     (if repoFails env (FindById (params_id req)) then (updateFailed, w)
      else
        (case records w (params_id req) of
           None \<Rightarrow> (notFound, w)
         | Some stored \<Rightarrow>
             if user stored \<noteq> user_id req then (notAuthorized, w)
             else
               let record0 = \<lparr>doc_id = params_id req, doc = stored,
                              isNew = False, invalidated = False\<rparr>;
                   record1 = assignTextFields (body req) record0
               in (case parseVitalsField env (body_vitals (body req)) of
                     Inl e \<Rightarrow> (updateFailed, w)
                   | Inr parsed \<Rightarrow>
                       let record2 = (case parsed of
                                        None \<Rightarrow> record1
                                      | Some j \<Rightarrow> setVitals env j record1);
                           dw3 = replaceLabReport env (file_labReport (req_files req))
                                   (record2, w);
                           dw4 = replacePrescription env (file_prescription (req_files req))
                                   dw3
                       in (case save env (fst dw4) (snd dw4) of
                             Inl e \<Rightarrow> (updateFailed, snd dw4)
                           | Inr w' \<Rightarrow>
                               (\<lparr>status = 200,
                                 json = RecordJson (doc_id (fst dw4)) (doc (fst dw4))\<rparr>,
                                w')))))"

subsection \<open>recordController.js: deleteRecord\<close>

definition deleteFailed :: Response where
  "deleteFailed = \<lparr>status = 500, json = Message ''Delete record failed''\<rparr>"

definition deleted :: Response where
  "deleted = \<lparr>status = 200, json = Message ''Record deleted successfully''\<rparr>"

definition deleteRecord :: "'j Env \<Rightarrow> Request \<Rightarrow> World \<Rightarrow> Response \<times> World" where
  "deleteRecord env req w =
     (if repoFails env (FindById (params_id req)) then (deleteFailed, w)
      else
        (case records w (params_id req) of
           None \<Rightarrow> (notFound, w)
         | Some stored \<Rightarrow>
             if user stored \<noteq> user_id req then (notAuthorized, w)
             else
               let w1 = deleteFileIfExists env (labReport (files stored)) w;
                   w2 = deleteFileIfExists env (prescription (files stored)) w1
               in if repoFails env (DeleteOne (params_id req)) then (deleteFailed, w2)
                  else (deleted,
                        w2\<lparr>records := (records w2)(params_id req := None),
                           trace := trace w2 @ [DeletedOne (params_id req)]\<rparr>)))"

subsection \<open>userController.js: deleteAccount\<close>

text \<open>
  \<^verbatim>\<open>Record.deleteMany({ user: req.user._id })\<close>, then
  \<^verbatim>\<open>User.findByIdAndDelete(req.user._id)\<close>. The \<^verbatim>\<open>catch\<close> answers 500 with the
  message of the error that was thrown.
\<close>

definition deleteManyByUser :: "ObjectId \<Rightarrow> (ObjectId \<rightharpoonup> RecordDoc) \<Rightarrow> (ObjectId \<rightharpoonup> RecordDoc)" where
  "deleteManyByUser uid m =
     (\<lambda>i. case m i of
            None \<Rightarrow> None
          | Some r \<Rightarrow> if user r = uid then None else Some r)"

definition accountDeleted :: Response where
  "accountDeleted = \<lparr>status = 200, json = Message ''Account and records deleted''\<rparr>"

definition deleteAccount :: "'j Env \<Rightarrow> Request \<Rightarrow> World \<Rightarrow> Response \<times> World" where
  "deleteAccount env req w =
     (if repoFails env (DeleteMany (user_id req))
      then (\<lparr>status = 500, json = ErrMessage (DeleteMany (user_id req))\<rparr>, w)
      else
        let w1 = w\<lparr>records := deleteManyByUser (user_id req) (records w),
                   trace := trace w @ [DeletedMany (user_id req)]\<rparr>
        in if repoFails env (FindByIdAndDelete (user_id req))
           then (\<lparr>status = 500, json = ErrMessage (FindByIdAndDelete (user_id req))\<rparr>, w1)
           else (accountDeleted,
                 w1\<lparr>users := users w1 - {user_id req},
                    trace := trace w1 @ [UserDeleted (user_id req)]\<rparr>))"

subsection \<open>multer.js: disk storage\<close>

text \<open>
  One file part of a multipart request. \<open>part_filename\<close> is the name that the storage's
  \<^verbatim>\<open>filename\<close> callback made for it from \<^verbatim>\<open>Date.now()\<close>, \<^verbatim>\<open>Math.random()\<close> and the
  extension of \<open>originalname\<close>: the clock and the random source are outside the model, so
  the name they gave is part of the input.
\<close>

record Part =
  originalname :: string
  part_data :: string
  part_filename :: string

definition destination :: "'j Env \<Rightarrow> string \<Rightarrow> string" where
  "destination env fieldname =
     (if fieldname = ''profile''
      then path_join env [dirname env, ''uploads'', ''profile'']
      else path_join env [dirname env, ''uploads'', ''records''])"

text \<open>
  The disk storage writes the part at \<^verbatim>\<open>path.join(destination, filename)\<close>. A write
  that fails (it would end the request in the error handler of \<^verbatim>\<open>server.js\<close>) is not
  modelled.
\<close>

definition storeFile :: "'j Env \<Rightarrow> string \<Rightarrow> Part \<Rightarrow> World \<Rightarrow> World" where
  "storeFile env fieldname p w =
     (let finalPath = path_join env [destination env fieldname, part_filename p]
      in w\<lparr>disk := (disk w)(finalPath \<mapsto> part_data p),
           trace := trace w @ [FileWritten finalPath]\<rparr>)"

subsection \<open>routes/records.js\<close>

text \<open>
  An HTTP request as the router receives it: the Authorization header, the \<^verbatim>\<open>:id\<close> of
  the URL, the text fields of the form and at most one file part for each of the two
  fields that \<^verbatim>\<open>upload.fields\<close> accepts (\<^verbatim>\<open>maxCount: 1\<close>).
\<close>

record HttpRequest =
  authorization :: "string option"
  url_id :: string
  form :: Body
  part_labReport :: "Part option"
  part_prescription :: "Part option"

text \<open>
  \<^verbatim>\<open>upload.fields([{name: "labReport", maxCount: 1}, {name: "prescription", maxCount: 1}])\<close>:
  every file part is written to disk by the storage, and \<^verbatim>\<open>req.files\<close> is filled, before
  the next handler of the route runs.
\<close>

definition upload_fields :: "'j Env \<Rightarrow> HttpRequest \<Rightarrow> World \<Rightarrow> ReqFiles \<times> World" where
  "upload_fields env h w =
     (let w1 = (case part_labReport h of
                  None \<Rightarrow> w
                | Some p \<Rightarrow> storeFile env ''labReport'' p w);
          w2 = (case part_prescription h of
                  None \<Rightarrow> w1
                | Some p \<Rightarrow> storeFile env ''prescription'' p w1)
      in (\<lparr>file_labReport = map_option part_filename (part_labReport h),
           file_prescription = map_option part_filename (part_prescription h)\<rparr>, w2))"

text \<open>\<^verbatim>\<open>router.post("/", protect, upload.fields(...), createRecord)\<close>\<close>

definition route_post :: "'j Env \<Rightarrow> HttpRequest \<Rightarrow> World \<Rightarrow> Response \<times> World" where
  "route_post env h w =
     (case protect env (authorization h) of
        Inl resp \<Rightarrow> (resp, w)
      | Inr uid \<Rightarrow>
          let fw = upload_fields env h w
          in createRecord env
               \<lparr>params_id = url_id h, user_id = uid, body = form h, req_files = fst fw\<rparr>
               (snd fw))"

text \<open>\<^verbatim>\<open>router.put("/:id", protect, upload.fields(...), updateRecord)\<close>\<close>

definition route_put :: "'j Env \<Rightarrow> HttpRequest \<Rightarrow> World \<Rightarrow> Response \<times> World" where
  "route_put env h w =
     (case protect env (authorization h) of
        Inl resp \<Rightarrow> (resp, w)
      | Inr uid \<Rightarrow>
          let fw = upload_fields env h w
          in updateRecord env
               \<lparr>params_id = url_id h, user_id = uid, body = form h, req_files = fst fw\<rparr>
               (snd fw))"

text \<open>\<^verbatim>\<open>router.delete("/:id", protect, deleteRecord)\<close>: no upload middleware.\<close>

definition route_delete :: "'j Env \<Rightarrow> HttpRequest \<Rightarrow> World \<Rightarrow> Response \<times> World" where
  "route_delete env h w =
     (case protect env (authorization h) of
        Inl resp \<Rightarrow> (resp, w)
      | Inr uid \<Rightarrow>
          deleteRecord env
            \<lparr>params_id = url_id h, user_id = uid, body = form h,
             req_files = \<lparr>file_labReport = None, file_prescription = None\<rparr>\<rparr>
            w)"

subsection \<open>A concrete environment\<close>

text \<open>
  Node's \<^verbatim>\<open>path.join\<close> on POSIX: the non-empty arguments are joined with a slash and the
  result is normalised (empty and \<^verbatim>\<open>.\<close> segments dropped, \<^verbatim>\<open>..\<close> resolved).
\<close>

fun segments :: "string \<Rightarrow> string \<Rightarrow> string list" where
  "segments acc [] = [rev acc]"
| "segments acc (c # cs) =
     (if c = CHR ''/'' then rev acc # segments [] cs else segments (c # acc) cs)"

fun resolve :: "bool \<Rightarrow> string list \<Rightarrow> string list \<Rightarrow> string list" where
  "resolve allowAboveRoot res [] = rev res"
| "resolve allowAboveRoot res (s # ss) =
     (if s = [] \<or> s = ''.'' then resolve allowAboveRoot res ss
      else if s = ''..'' then
        (case res of
           [] \<Rightarrow> resolve allowAboveRoot (if allowAboveRoot then [''..''] else []) ss
         | t # ts \<Rightarrow>
             if t = ''..'' then resolve allowAboveRoot (''..'' # res) ss
             else resolve allowAboveRoot ts ss)
      else resolve allowAboveRoot (s # res) ss)"

fun intercalate :: "string \<Rightarrow> string list \<Rightarrow> string" where
  "intercalate sep [] = []"
| "intercalate sep [s] = s"
| "intercalate sep (s # t # ss) = s @ sep @ intercalate sep (t # ss)"

definition normalize :: "string \<Rightarrow> string" where
  "normalize p =
     (if p = [] then ''.''
      else
        let isAbsolute = (hd p = CHR ''/'');
            trailingSeparator = (last p = CHR ''/'');
            q = intercalate ''/'' (resolve (\<not> isAbsolute) [] (segments [] p))
        in if q = [] then (if isAbsolute then ''/'' else if trailingSeparator then ''./'' else ''.'')
           else (if isAbsolute then ''/'' else []) @ q @ (if trailingSeparator then ''/'' else []))"

definition posix_join :: "string list \<Rightarrow> string" where
  "posix_join args =
     (let joined = intercalate ''/'' (filter (\<lambda>a. a \<noteq> []) args)
      in if joined = [] then ''.'' else normalize joined)"

text \<open>
  The environment of the examples. Parsed JSON is an object of string fields, written as
  an association list; the parser knows the three documents the examples send;
  the cast reads the five fields of the schema and drops the rest; the database and
  \<^verbatim>\<open>unlinkSync\<close> do not fail; every token is the id of the user it authenticates.
\<close>

definition exampleParse :: "string \<Rightarrow> (string \<times> string) list option" where
  "exampleParse s =
     (if s = ''{\"heartRate\":\"75\"}'' then Some [(''heartRate'', ''75'')]
      else if s = ''{\"bloodPressure\":\"120/80\"}'' then Some [(''bloodPressure'', ''120/80'')]
      else if s = ''{}'' then Some []
      else None)"

definition exampleCast :: "(string \<times> string) list \<Rightarrow> Vitals option" where
  "exampleCast kvs =
     Some \<lparr>bloodPressure = map_of kvs ''bloodPressure'',
           heartRate = map_of kvs ''heartRate'',
           bloodSugar = map_of kvs ''bloodSugar'',
           weight = map_of kvs ''weight'',
           height = map_of kvs ''height''\<rparr>"

definition exampleProtect :: "string option \<Rightarrow> Response + ObjectId" where
  "exampleProtect tok =
     (case tok of
        None \<Rightarrow> Inl \<lparr>status = 401, json = Message ''Not authorized, no token''\<rparr>
      | Some uid \<Rightarrow> Inr uid)"

definition exampleEnv :: "((string \<times> string) list) Env" where
  "exampleEnv =
     \<lparr>JSON_parse = exampleParse,
      castVitals = exampleCast,
      path_join = posix_join,
      dirname = ''/srv/Backend'',
      repoFails = (\<lambda>op. False),
      unlinkFails = (\<lambda>p. False),
      newObjectId = ''r2'',
      protect = exampleProtect\<rparr>"

text \<open>
  The world of the examples: Alice owns record \<open>r1\<close>, which has both attachments, and
  both files are on disk; Bob is another user.
\<close>

definition exampleRecord :: RecordDoc where
  "exampleRecord =
     \<lparr>user = ''alice'',
      title = Some ''Checkup'',
      medicalHistory = ''asthma'',
      doctorNotes = ''rest'',
      vitals = \<lparr>bloodPressure = Some ''120/80'', heartRate = Some ''70'',
                bloodSugar = None, weight = None, height = None\<rparr>,
      files = \<lparr>labReport = ''/uploads/records/lab1.pdf'',
               prescription = ''/uploads/records/rx1.pdf''\<rparr>\<rparr>"

definition exampleWorld :: World where
  "exampleWorld =
     \<lparr>records = [''r1'' \<mapsto> exampleRecord],
      users = {''alice'', ''bob''},
      disk = [''/srv/Backend/uploads/records/lab1.pdf'' \<mapsto> ''LAB'',
              ''/srv/Backend/uploads/records/rx1.pdf'' \<mapsto> ''RX''],
      trace = []\<rparr>"

definition noBody :: Body where
  "noBody = \<lparr>body_title = None, body_medicalHistory = None, body_doctorNotes = None,
             body_vitals = None\<rparr>"

definition noFiles :: ReqFiles where
  "noFiles = \<lparr>file_labReport = None, file_prescription = None\<rparr>"

text \<open>Bob, who owns nothing, addresses Alice's record \<open>r1\<close>.\<close>

definition bobRequest :: Request where
  "bobRequest = \<lparr>params_id = ''r1'', user_id = ''bob'', body = noBody, req_files = noFiles\<rparr>"

text \<open>Alice's requests on her record \<open>r1\<close>.\<close>

definition aliceRequest :: Request where
  "aliceRequest = \<lparr>params_id = ''r1'', user_id = ''alice'', body = noBody, req_files = noFiles\<rparr>"

text \<open>An update that sends only \<^verbatim>\<open>title = ""\<close>.\<close>

definition emptyTitleUpdate :: Request where
  "emptyTitleUpdate = aliceRequest\<lparr>body := noBody\<lparr>body_title := Some []\<rparr>\<rparr>"

text \<open>An update that sends \<^verbatim>\<open>medicalHistory = ""\<close> and a new title, and no doctor's notes.\<close>

definition textUpdate :: Request where
  "textUpdate = aliceRequest\<lparr>body := noBody\<lparr>body_title := Some ''Follow-up'',
                                             body_medicalHistory := Some []\<rparr>\<rparr>"

text \<open>An update that sends only \<^verbatim>\<open>vitals = {"heartRate":"75"}\<close>.\<close>

definition vitalsUpdate :: Request where
  "vitalsUpdate = aliceRequest\<lparr>body := noBody\<lparr>body_vitals := Some ''{\"heartRate\":\"75\"}''\<rparr>\<rparr>"

text \<open>An update that sends only \<^verbatim>\<open>vitals = ""\<close>.\<close>

definition emptyVitalsUpdate :: Request where
  "emptyVitalsUpdate = aliceRequest\<lparr>body := noBody\<lparr>body_vitals := Some []\<rparr>\<rparr>"

text \<open>
  The world after the upload middleware has stored a new lab report as \<open>lab2.pdf\<close>.
\<close>

definition uploadedWorld :: World where
  "uploadedWorld =
     exampleWorld\<lparr>disk := (disk exampleWorld)(''/srv/Backend/uploads/records/lab2.pdf'' \<mapsto> ''LAB2''),
                  trace := [FileWritten ''/srv/Backend/uploads/records/lab2.pdf'']\<rparr>"

text \<open>HTTP requests: Bob's PUT on \<open>r1\<close> with a lab report, and a POST with unparsable vitals.\<close>

definition newPart :: Part where
  "newPart = \<lparr>originalname = ''scan.pdf'', part_data = ''DATA'', part_filename = ''1700-abc.pdf''\<rparr>"

definition bobPut :: HttpRequest where
  "bobPut = \<lparr>authorization = Some ''bob'', url_id = ''r1'', form = noBody,
             part_labReport = Some newPart, part_prescription = None\<rparr>"

definition badVitalsPost :: HttpRequest where
  "badVitalsPost = \<lparr>authorization = Some ''alice'', url_id = [],
                    form = noBody\<lparr>body_title := Some ''Checkup'', body_vitals := Some ''{oops''\<rparr>,
                    part_labReport = Some newPart, part_prescription = None\<rparr>"

text \<open>Create requests: without a title, with unparsable vitals, and a well-formed one.\<close>

definition createNoTitle :: Request where
  "createNoTitle = \<lparr>params_id = [], user_id = ''alice'', body = noBody, req_files = noFiles\<rparr>"

definition createBadVitals :: Request where
  "createBadVitals =
     \<lparr>params_id = [], user_id = ''alice'',
      body = noBody\<lparr>body_title := Some ''Checkup'', body_vitals := Some ''{oops''\<rparr>,
      req_files = noFiles\<rparr>"

definition createOk :: Request where
  "createOk =
     \<lparr>params_id = [], user_id = ''alice'',
      body = noBody\<lparr>body_title := Some ''Checkup''\<rparr>,
      req_files = noFiles\<rparr>"

definition createEmptyVitals :: Request where
  "createEmptyVitals = createOk\<lparr>body := (body createOk)\<lparr>body_vitals := Some []\<rparr>\<rparr>"

text \<open>Alice sends the empty title together with a new lab report.\<close>

definition emptyTitleLabUpdate :: Request where
  "emptyTitleLabUpdate =
     aliceRequest\<lparr>body := noBody\<lparr>body_title := Some []\<rparr>,
                  req_files := noFiles\<lparr>file_labReport := Some ''lab2.pdf''\<rparr>\<rparr>"

text \<open>Alice sends vitals that do not parse, together with a new lab report.\<close>

definition badVitalsUpdate :: Request where
  "badVitalsUpdate =
     aliceRequest\<lparr>body := noBody\<lparr>body_vitals := Some ''{oops''\<rparr>,
                  req_files := noFiles\<lparr>file_labReport := Some ''lab2.pdf''\<rparr>\<rparr>"

text \<open>The same environment with a database that rejects every call.\<close>

definition brokenRepoEnv :: "((string \<times> string) list) Env" where
  "brokenRepoEnv = exampleEnv\<lparr>repoFails := (\<lambda>op. True)\<rparr>"

subsection \<open>Auxiliary functions for stating properties\<close>

text \<open>The events that one call of \<^verbatim>\<open>deleteFileIfExists\<close> appends to the trace.\<close>

definition unlinkEvents :: "'j Env \<Rightarrow> string \<Rightarrow> World \<Rightarrow> event list" where
  "unlinkEvents env p w =
     (if p = [] then []
      else case disk w (fullPathOf env p) of
             None \<Rightarrow> []
           | Some c \<Rightarrow> if unlinkFails env (fullPathOf env p)
                       then [UnlinkFailed (fullPathOf env p)]
                       else [Unlinked (fullPathOf env p)])"

text \<open>
  The document and the world that \<^verbatim>\<open>updateRecord\<close> has built when it reaches
  \<^verbatim>\<open>record.save()\<close> (lines 94 to 120), given the stored record and the parsed vitals.
\<close>

definition applyUpdate ::
  "'j Env \<Rightarrow> Request \<Rightarrow> RecordDoc \<Rightarrow> 'j option \<Rightarrow> World \<Rightarrow> Document \<times> World" where
  "applyUpdate env req stored parsed w =
     (let record0 = \<lparr>doc_id = params_id req, doc = stored, isNew = False, invalidated = False\<rparr>;
          record1 = assignTextFields (body req) record0;
          record2 = (case parsed of None \<Rightarrow> record1 | Some j \<Rightarrow> setVitals env j record1)
      in replacePrescription env (file_prescription (req_files req))
           (replaceLabReport env (file_labReport (req_files req)) (record2, w)))"

text \<open>The events that the upload middleware appends to the trace.\<close>

definition uploadEvents :: "'j Env \<Rightarrow> HttpRequest \<Rightarrow> event list" where
  "uploadEvents env h =
     (case part_labReport h of
        None \<Rightarrow> []
      | Some p \<Rightarrow> [FileWritten (path_join env [destination env ''labReport'', part_filename p])])
     @ (case part_prescription h of
          None \<Rightarrow> []
        | Some p \<Rightarrow>
            [FileWritten (path_join env [destination env ''prescription'', part_filename p])])"

text \<open>
  The document that \<^verbatim>\<open>createRecord\<close> has built when it reaches \<^verbatim>\<open>record.save()\<close>
  (lines 31 to 53), given the parsed vitals.
\<close>

definition buildRecord :: "'j Env \<Rightarrow> Request \<Rightarrow> 'j option \<Rightarrow> Document" where
  "buildRecord env req parsed =
     (let record0 = newRecord env (user_id req) (body req) parsed;
          record1 = (case file_labReport (req_files req) of
                       None \<Rightarrow> record0
                     | Some fn \<Rightarrow> setLabReport (buildPublicPath ''records'' fn) record0)
      in (case file_prescription (req_files req) of
            None \<Rightarrow> record1
          | Some fn \<Rightarrow> setPrescription (buildPublicPath ''records'' fn) record1))"

text \<open>
  The events that the attachment replacement of \<^verbatim>\<open>updateRecord\<close> (lines 105 to 120)
  appends to the trace: the unlink of the old lab report when a new one was sent, then
  the unlink of the old prescription when a new one was sent.
\<close>

definition replaceEvents :: "'j Env \<Rightarrow> Request \<Rightarrow> RecordDoc \<Rightarrow> World \<Rightarrow> event list" where
  "replaceEvents env req stored w =
     (let evs1 = (case file_labReport (req_files req) of
                    None \<Rightarrow> []
                  | Some fn \<Rightarrow> unlinkEvents env (labReport (files stored)) w);
          w1 = (case file_labReport (req_files req) of
                  None \<Rightarrow> w
                | Some fn \<Rightarrow> deleteFileIfExists env (labReport (files stored)) w)
      in evs1 @ (case file_prescription (req_files req) of
                   None \<Rightarrow> []
                 | Some fn \<Rightarrow> unlinkEvents env (prescription (files stored)) w1))"

text \<open>Alice's PUT on her record \<open>r1\<close> with a new lab report attached.\<close>

definition aliceLabPut :: HttpRequest where
  "aliceLabPut = \<lparr>authorization = Some ''alice'', url_id = ''r1'', form = noBody,
                  part_labReport = Some newPart, part_prescription = None\<rparr>"

text \<open>The same PUT, sending the empty title as well.\<close>

definition emptyTitleLabPut :: HttpRequest where
  "emptyTitleLabPut = aliceLabPut\<lparr>form := noBody\<lparr>body_title := Some []\<rparr>\<rparr>"

text \<open>
  The request that \<^verbatim>\<open>updateRecord\<close> receives from the PUT route, once \<^verbatim>\<open>protect\<close> has
  authenticated the caller and the upload middleware has filled \<^verbatim>\<open>req.files\<close>.
\<close>

definition putRequest :: "ObjectId \<Rightarrow> HttpRequest \<Rightarrow> Request" where
  "putRequest uid h =
     \<lparr>params_id = url_id h, user_id = uid, body = form h,
      req_files = \<lparr>file_labReport = map_option part_filename (part_labReport h),
                   file_prescription = map_option part_filename (part_prescription h)\<rparr>\<rparr>"

section \<open>Basic facts\<close>

lemma posix_join_lab1:
  "posix_join [''/srv/Backend/controllers'', ''..'', ''/uploads/records/lab1.pdf'']
     = ''/srv/Backend/uploads/records/lab1.pdf''"
  by (simp add: posix_join_def normalize_def)

lemma posix_join_rx1:
  "posix_join [''/srv/Backend/controllers'', ''..'', ''/uploads/records/rx1.pdf'']
     = ''/srv/Backend/uploads/records/rx1.pdf''"
  by (simp add: posix_join_def normalize_def)

lemma posix_join_records:
  "posix_join [''/srv/Backend'', ''uploads'', ''records''] = ''/srv/Backend/uploads/records''"
  by (simp add: posix_join_def normalize_def)

lemma save_Inr:
  "save env d w = Inr w' \<Longrightarrow>
     \<not> validationFails d \<and>
     w' = w\<lparr>records := (records w)(doc_id d \<mapsto> doc d), trace := trace w @ [Saved (doc_id d)]\<rparr>"
  by (auto simp: save_def split: if_splits)

lemma deleteFileIfExists_records [simp]:
  "records (deleteFileIfExists env p w) = records w"
  by (simp add: deleteFileIfExists_def Let_def split: option.splits)

lemma deleteFileIfExists_users [simp]:
  "users (deleteFileIfExists env p w) = users w"
  by (simp add: deleteFileIfExists_def Let_def split: option.splits)

lemma deleteFileIfExists_disk_other:
  "q \<noteq> fullPathOf env p \<Longrightarrow> disk (deleteFileIfExists env p w) q = disk w q"
  by (simp add: deleteFileIfExists_def Let_def split: option.splits)

lemma deleteFileIfExists_disk_mono:
  "disk w q = None \<Longrightarrow> disk (deleteFileIfExists env p w) q = None"
  by (simp add: deleteFileIfExists_def Let_def split: option.splits)

lemma deleteFileIfExists_disk_sub:
  "disk (deleteFileIfExists env p w) q = Some c \<Longrightarrow> disk w q = Some c"
  by (simp add: deleteFileIfExists_def Let_def split: option.splits if_splits)

lemma deleteFileIfExists_gone:
  "p \<noteq> [] \<Longrightarrow> \<not> unlinkFails env (fullPathOf env p) \<Longrightarrow>
     disk (deleteFileIfExists env p w) (fullPathOf env p) = None"
  by (simp add: deleteFileIfExists_def Let_def split: option.splits)

lemma deleteFileIfExists_trace:
  "trace (deleteFileIfExists env p w) = trace w @ unlinkEvents env p w"
  by (simp add: deleteFileIfExists_def unlinkEvents_def Let_def split: option.splits)



lemma assignTextFields_title:
  "title (doc (assignTextFields b d)) =
     (case body_title b of None \<Rightarrow> title (doc d) | Some t \<Rightarrow> Some t)"
  by (simp add: assignTextFields_def split: option.splits)

lemma assignTextFields_medicalHistory:
  "medicalHistory (doc (assignTextFields b d)) =
     (case body_medicalHistory b of None \<Rightarrow> medicalHistory (doc d) | Some s \<Rightarrow> s)"
  by (simp add: assignTextFields_def split: option.splits)

lemma assignTextFields_doctorNotes:
  "doctorNotes (doc (assignTextFields b d)) =
     (case body_doctorNotes b of None \<Rightarrow> doctorNotes (doc d) | Some s \<Rightarrow> s)"
  by (simp add: assignTextFields_def split: option.splits)

lemma assignTextFields_rest:
  "vitals (doc (assignTextFields b d)) = vitals (doc d)"
  "files (doc (assignTextFields b d)) = files (doc d)"
  "user (doc (assignTextFields b d)) = user (doc d)"
  "doc_id (assignTextFields b d) = doc_id d"
  "isNew (assignTextFields b d) = isNew d"
  "invalidated (assignTextFields b d) = invalidated d"
  by (simp_all add: assignTextFields_def split: option.splits)

lemma setVitals_rest:
  "title (doc (setVitals env j d)) = title (doc d)"
  "medicalHistory (doc (setVitals env j d)) = medicalHistory (doc d)"
  "doctorNotes (doc (setVitals env j d)) = doctorNotes (doc d)"
  "files (doc (setVitals env j d)) = files (doc d)"
  "user (doc (setVitals env j d)) = user (doc d)"
  "doc_id (setVitals env j d) = doc_id d"
  "isNew (setVitals env j d) = isNew d"
  by (simp_all add: setVitals_def split: option.splits)

lemma setVitals_valid:
  "\<not> invalidated (setVitals env j d) \<Longrightarrow>
     \<exists>v. castVitals env j = Some v \<and> vitals (doc (setVitals env j d)) = v"
  by (simp add: setVitals_def split: option.splits)

lemma replaceLabReport_doc:
  "title (doc (fst (replaceLabReport env f dw))) = title (doc (fst dw))"
  "medicalHistory (doc (fst (replaceLabReport env f dw))) = medicalHistory (doc (fst dw))"
  "doctorNotes (doc (fst (replaceLabReport env f dw))) = doctorNotes (doc (fst dw))"
  "vitals (doc (fst (replaceLabReport env f dw))) = vitals (doc (fst dw))"
  "user (doc (fst (replaceLabReport env f dw))) = user (doc (fst dw))"
  "prescription (files (doc (fst (replaceLabReport env f dw)))) = prescription (files (doc (fst dw)))"
  "doc_id (fst (replaceLabReport env f dw)) = doc_id (fst dw)"
  "isNew (fst (replaceLabReport env f dw)) = isNew (fst dw)"
  "invalidated (fst (replaceLabReport env f dw)) = invalidated (fst dw)"
  by (simp_all add: replaceLabReport_def setLabReport_def split: option.splits)

lemma replaceLabReport_slot:
  "labReport (files (doc (fst (replaceLabReport env f dw)))) =
     (case f of None \<Rightarrow> labReport (files (doc (fst dw)))
              | Some fn \<Rightarrow> buildPublicPath ''records'' fn)"
  by (simp add: replaceLabReport_def setLabReport_def split: option.splits)

lemma replaceLabReport_world:
  "snd (replaceLabReport env f dw) =
     (case f of None \<Rightarrow> snd dw
              | Some fn \<Rightarrow> deleteFileIfExists env (labReport (files (doc (fst dw)))) (snd dw))"
  by (simp add: replaceLabReport_def split: option.splits)

lemma replacePrescription_doc:
  "title (doc (fst (replacePrescription env f dw))) = title (doc (fst dw))"
  "medicalHistory (doc (fst (replacePrescription env f dw))) = medicalHistory (doc (fst dw))"
  "doctorNotes (doc (fst (replacePrescription env f dw))) = doctorNotes (doc (fst dw))"
  "vitals (doc (fst (replacePrescription env f dw))) = vitals (doc (fst dw))"
  "user (doc (fst (replacePrescription env f dw))) = user (doc (fst dw))"
  "labReport (files (doc (fst (replacePrescription env f dw)))) = labReport (files (doc (fst dw)))"
  "doc_id (fst (replacePrescription env f dw)) = doc_id (fst dw)"
  "isNew (fst (replacePrescription env f dw)) = isNew (fst dw)"
  "invalidated (fst (replacePrescription env f dw)) = invalidated (fst dw)"
  by (simp_all add: replacePrescription_def setPrescription_def split: option.splits)

lemma replacePrescription_slot:
  "prescription (files (doc (fst (replacePrescription env f dw)))) =
     (case f of None \<Rightarrow> prescription (files (doc (fst dw)))
              | Some fn \<Rightarrow> buildPublicPath ''records'' fn)"
  by (simp add: replacePrescription_def setPrescription_def split: option.splits)

lemma replacePrescription_world:
  "snd (replacePrescription env f dw) =
     (case f of None \<Rightarrow> snd dw
              | Some fn \<Rightarrow> deleteFileIfExists env (prescription (files (doc (fst dw)))) (snd dw))"
  by (simp add: replacePrescription_def split: option.splits)

lemma replace_records:
  "records (snd (replaceLabReport env f dw)) = records (snd dw)"
  "records (snd (replacePrescription env f dw)) = records (snd dw)"
  by (simp_all add: replaceLabReport_world replacePrescription_world split: option.splits)


lemma deleteFileIfExists_records_update:
  "deleteFileIfExists env p (w\<lparr>records := m\<rparr>) = (deleteFileIfExists env p w)\<lparr>records := m\<rparr>"
  by (simp add: deleteFileIfExists_def Let_def split: option.splits)

lemma unlinkEvents_kinds:
  "e \<in> set (unlinkEvents env p w) \<Longrightarrow> \<exists>q. e = Unlinked q \<or> e = UnlinkFailed q"
  by (auto simp: unlinkEvents_def split: option.splits if_splits)

lemma unlinkEvents_attempt:
  "p \<noteq> [] \<Longrightarrow> disk w (fullPathOf env p) \<noteq> None \<Longrightarrow>
     Unlinked (fullPathOf env p) \<in> set (unlinkEvents env p w)
   \<or> UnlinkFailed (fullPathOf env p) \<in> set (unlinkEvents env p w)"
  by (auto simp: unlinkEvents_def split: option.splits if_splits)

lemma applyUpdate_doc:
  "doc_id (fst (applyUpdate env req stored parsed w)) = params_id req"
  "isNew (fst (applyUpdate env req stored parsed w)) = False"
  "user (doc (fst (applyUpdate env req stored parsed w))) = user stored"
  "title (doc (fst (applyUpdate env req stored parsed w))) =
     (case body_title (body req) of None \<Rightarrow> title stored | Some t \<Rightarrow> Some t)"
  "medicalHistory (doc (fst (applyUpdate env req stored parsed w))) =
     (case body_medicalHistory (body req) of None \<Rightarrow> medicalHistory stored | Some s \<Rightarrow> s)"
  "doctorNotes (doc (fst (applyUpdate env req stored parsed w))) =
     (case body_doctorNotes (body req) of None \<Rightarrow> doctorNotes stored | Some s \<Rightarrow> s)"
  "labReport (files (doc (fst (applyUpdate env req stored parsed w)))) =
     (case file_labReport (req_files req) of
        None \<Rightarrow> labReport (files stored) | Some fn \<Rightarrow> buildPublicPath ''records'' fn)"
  "prescription (files (doc (fst (applyUpdate env req stored parsed w)))) =
     (case file_prescription (req_files req) of
        None \<Rightarrow> prescription (files stored) | Some fn \<Rightarrow> buildPublicPath ''records'' fn)"
  by (simp_all add: applyUpdate_def Let_def replacePrescription_doc replaceLabReport_doc
        replacePrescription_slot replaceLabReport_slot setVitals_rest assignTextFields_rest
        assignTextFields_title assignTextFields_medicalHistory assignTextFields_doctorNotes
      split: option.splits)

lemma applyUpdate_vitals:
  "vitals (doc (fst (applyUpdate env req stored None w))) = vitals stored"
  "\<not> invalidated (fst (applyUpdate env req stored (Some j) w)) \<Longrightarrow>
     \<exists>v. castVitals env j = Some v \<and> vitals (doc (fst (applyUpdate env req stored (Some j) w))) = v"
  by (simp_all add: applyUpdate_def Let_def replacePrescription_doc replaceLabReport_doc
        assignTextFields_rest setVitals_def split: option.splits)

text \<open>The world at \<^verbatim>\<open>save()\<close>: the old lab report deleted first, the old prescription next.\<close>

lemma applyUpdate_world:
  "snd (applyUpdate env req stored parsed w) =
     (let w1 = (case file_labReport (req_files req) of
                  None \<Rightarrow> w
                | Some fn \<Rightarrow> deleteFileIfExists env (labReport (files stored)) w)
      in (case file_prescription (req_files req) of
            None \<Rightarrow> w1
          | Some fn \<Rightarrow> deleteFileIfExists env (prescription (files stored)) w1))"
  by (simp add: applyUpdate_def Let_def replacePrescription_world replaceLabReport_world
        replaceLabReport_doc setVitals_rest assignTextFields_rest
      split: option.splits)

lemma applyUpdate_records:
  "records (snd (applyUpdate env req stored parsed w)) = records w"
  by (simp add: applyUpdate_world Let_def split: option.splits)

text \<open>The owner's update, after the lookup and the ownership check.\<close>

lemma updateRecord_owner:
  assumes "\<not> repoFails env (FindById (params_id req))"
    and "records w (params_id req) = Some stored"
    and "user stored = user_id req"
  shows "updateRecord env req w =
     (case parseVitalsField env (body_vitals (body req)) of
        Inl e \<Rightarrow> (updateFailed, w)
      | Inr parsed \<Rightarrow>
          (case save env (fst (applyUpdate env req stored parsed w))
                         (snd (applyUpdate env req stored parsed w)) of
             Inl e \<Rightarrow> (updateFailed, snd (applyUpdate env req stored parsed w))
           | Inr w' \<Rightarrow>
               (\<lparr>status = 200,
                 json = RecordJson (params_id req) (doc (fst (applyUpdate env req stored parsed w)))\<rparr>,
                w')))"
  using assms
  by (simp add: updateRecord_def applyUpdate_def Let_def replacePrescription_doc
        replaceLabReport_doc setVitals_rest assignTextFields_rest
      split: sum.splits option.splits)

text \<open>
  The shape of a successful update by the owner: the vitals field parsed, validation
  passed, and the stored record is the document as the handler left it.
\<close>

lemma updateRecord_success:
  assumes "\<not> repoFails env (FindById (params_id req))"
    and "records w (params_id req) = Some stored"
    and "user stored = user_id req"
    and "status (fst (updateRecord env req w)) = 200"
  obtains parsed where
    "parseVitalsField env (body_vitals (body req)) = Inr parsed"
    "\<not> validationFails (fst (applyUpdate env req stored parsed w))"
    "updateRecord env req w =
       (\<lparr>status = 200,
         json = RecordJson (params_id req) (doc (fst (applyUpdate env req stored parsed w)))\<rparr>,
        (snd (applyUpdate env req stored parsed w))
          \<lparr>records := (records w)(params_id req \<mapsto> doc (fst (applyUpdate env req stored parsed w))),
           trace := trace (snd (applyUpdate env req stored parsed w)) @ [Saved (params_id req)]\<rparr>)"
proof (cases "parseVitalsField env (body_vitals (body req))")
  case (Inl e)
  with assms show ?thesis
    by (simp add: updateRecord_owner updateFailed_def)
next
  case (Inr parsed)
  note parsed = this
  show ?thesis
  proof (cases "save env (fst (applyUpdate env req stored parsed w))
                         (snd (applyUpdate env req stored parsed w))")
    case (Inl e)
    with assms parsed show ?thesis
      by (simp add: updateRecord_owner updateFailed_def)
  next
    case (Inr w')
    from save_Inr [OF Inr] have
      "\<not> validationFails (fst (applyUpdate env req stored parsed w))"
      "w' = (snd (applyUpdate env req stored parsed w))
          \<lparr>records := (records w)(params_id req \<mapsto> doc (fst (applyUpdate env req stored parsed w))),
           trace := trace (snd (applyUpdate env req stored parsed w)) @ [Saved (params_id req)]\<rparr>"
      by (simp_all add: applyUpdate_doc applyUpdate_records)
    with assms(1-3) parsed Inr show ?thesis
      by (intro that [of parsed]) (simp_all add: updateRecord_owner)
  qed
qed

lemmas example_defs =
  exampleEnv_def exampleWorld_def exampleRecord_def noBody_def noFiles_def
  aliceRequest_def bobRequest_def exampleParse_def exampleCast_def exampleProtect_def

lemmas handler_defs =
  updateRecord_def deleteRecord_def createRecord_def save_def validationFails_def
  parseVitalsField_def assignTextFields_def setVitals_def newRecord_def
  replaceLabReport_def replacePrescription_def setLabReport_def setPrescription_def
  deleteFileIfExists_def fullPathOf_def controllers_dirname_def buildPublicPath_def
  Let_def

lemma example_fullPaths:
  "fullPathOf exampleEnv ''/uploads/records/lab1.pdf'' = ''/srv/Backend/uploads/records/lab1.pdf''"
  "fullPathOf exampleEnv ''/uploads/records/rx1.pdf'' = ''/srv/Backend/uploads/records/rx1.pdf''"
  by (simp_all add: fullPathOf_def controllers_dirname_def exampleEnv_def
        posix_join_lab1 posix_join_rx1)

lemma exampleEnv_reliable:
  "repoFails exampleEnv op = False"
  "unlinkFails exampleEnv p = False"
  by (simp_all add: exampleEnv_def)

lemma example_delete_trace:
  "trace (snd (deleteRecord exampleEnv aliceRequest exampleWorld))
       = [Unlinked ''/srv/Backend/uploads/records/lab1.pdf'',
          Unlinked ''/srv/Backend/uploads/records/rx1.pdf'',
          DeletedOne ''r1'']"
  by (simp add: deleteRecord_def deleteFileIfExists_def Let_def example_fullPaths
        exampleWorld_def exampleRecord_def aliceRequest_def exampleEnv_reliable)

lemma applyUpdate_prior_vitals:
  "castVitals env j = Some v \<Longrightarrow>
     applyUpdate env req (stored\<lparr>vitals := v0\<rparr>) (Some j) (w\<lparr>records := m\<rparr>) =
       (fst (applyUpdate env req stored (Some j) w),
        (snd (applyUpdate env req stored (Some j) w))\<lparr>records := m\<rparr>)"
  by (simp add: applyUpdate_def Let_def replaceLabReport_def replacePrescription_def
        setLabReport_def setPrescription_def assignTextFields_def setVitals_def
        deleteFileIfExists_records_update
      split: option.splits)

lemma parseVitalsField_nonempty:
  "s \<noteq> [] \<Longrightarrow> parseVitalsField env (Some s) = Inr parsed \<Longrightarrow>
     \<exists>j. parsed = Some j \<and> JSON_parse env s = Some j"
  by (cases "JSON_parse env s") (auto simp: parseVitalsField_def)

lemma storeFile_simps:
  "records (storeFile env f p w) = records w"
  "users (storeFile env f p w) = users w"
  "trace (storeFile env f p w) =
     trace w @ [FileWritten (path_join env [destination env f, part_filename p])]"
  by (simp_all add: storeFile_def Let_def)

lemma storeFile_keeps:
  "disk (storeFile env f p w) q = None \<Longrightarrow> disk w q = None"
  by (simp add: storeFile_def Let_def split: if_splits)

lemma upload_fields_records:
  "records (snd (upload_fields env h w)) = records w"
  by (simp add: upload_fields_def Let_def storeFile_simps split: option.splits)

lemma upload_fields_keeps:
  "disk (snd (upload_fields env h w)) q = None \<Longrightarrow> disk w q = None"
  by (auto simp: upload_fields_def Let_def split: option.splits dest: storeFile_keeps)

lemma upload_fields_trace:
  "trace (snd (upload_fields env h w)) = trace w @ uploadEvents env h"
  by (simp add: upload_fields_def uploadEvents_def Let_def storeFile_simps split: option.splits)

lemma uploadEvents_kinds:
  "e \<in> set (uploadEvents env h) \<Longrightarrow> \<exists>p. e = FileWritten p"
  by (auto simp: uploadEvents_def split: option.splits)

lemma buildRecord_doc:
  "doc_id (buildRecord env req parsed) = newObjectId env"
  "isNew (buildRecord env req parsed) = True"
  "title (doc (buildRecord env req parsed)) = body_title (body req)"
  "user (doc (buildRecord env req parsed)) = user_id req"
  by (simp_all add: buildRecord_def newRecord_def Let_def setLabReport_def setPrescription_def
        setVitals_def split: option.splits)

lemma buildRecord_vitals_default:
  "vitals (doc (buildRecord env req None)) = emptyVitals"
  "invalidated (buildRecord env req None) = False"
  by (simp_all add: buildRecord_def newRecord_def Let_def setLabReport_def setPrescription_def
        split: option.splits)

lemma createRecord_unfold:
  "createRecord env req w =
     (case parseVitalsField env (body_vitals (body req)) of
        Inl e \<Rightarrow> (createFailed, w)
      | Inr parsed \<Rightarrow>
          (case save env (buildRecord env req parsed) w of
             Inl e \<Rightarrow> (createFailed, w)
           | Inr w' \<Rightarrow>
               (\<lparr>status = 201,
                 json = RecordJson (newObjectId env) (doc (buildRecord env req parsed))\<rparr>, w')))"
  by (simp add: createRecord_def buildRecord_def Let_def newRecord_def setLabReport_def
        setPrescription_def setVitals_def
      split: sum.splits option.splits)

lemma createRecord_failure:
  "status (fst (createRecord env req w)) \<noteq> 201 \<Longrightarrow> createRecord env req w = (createFailed, w)"
  by (simp add: createRecord_unfold split: sum.splits)

lemma updateRecord_failure_records:
  "status (fst (updateRecord env req w)) \<noteq> 200 \<Longrightarrow>
     records (snd (updateRecord env req w)) = records w"
proof (cases "\<not> repoFails env (FindById (params_id req))
              \<and> (\<exists>stored. records w (params_id req) = Some stored \<and> user stored = user_id req)")
  case True
  then obtain stored where s: "\<not> repoFails env (FindById (params_id req))"
    "records w (params_id req) = Some stored" "user stored = user_id req"
    by blast
  assume "status (fst (updateRecord env req w)) \<noteq> 200"
  then show ?thesis
    by (simp add: updateRecord_owner [OF s] applyUpdate_records split: sum.splits)
next
  case False
  then show ?thesis
    by (auto simp: updateRecord_def split: option.splits)
qed

lemma updateRecord_syntax_error:
  assumes "body_vitals (body req) = Some s" and "s \<noteq> []" and "JSON_parse env s = None"
  shows "snd (updateRecord env req w) = w"
    and "status (fst (updateRecord env req w)) \<noteq> 200"
  using assms
  by (simp_all add: updateRecord_def parseVitalsField_def Let_def updateFailed_def notFound_def
        notAuthorized_def split: option.splits)

lemma posix_join_upload:
  "posix_join [''/srv/Backend/uploads/records'', ''1700-abc.pdf'']
     = ''/srv/Backend/uploads/records/1700-abc.pdf''"
  by (simp add: posix_join_def normalize_def)

lemma example_destination:
  "destination exampleEnv ''labReport'' = ''/srv/Backend/uploads/records''"
  by (simp add: destination_def exampleEnv_def posix_join_records)

lemma example_bobPut_upload:
  "snd (upload_fields exampleEnv bobPut exampleWorld) =
     exampleWorld\<lparr>disk := (disk exampleWorld)(''/srv/Backend/uploads/records/1700-abc.pdf'' \<mapsto> ''DATA''),
                  trace := [FileWritten ''/srv/Backend/uploads/records/1700-abc.pdf'']\<rparr>"
proof -
  have "path_join exampleEnv [destination exampleEnv ''labReport'', ''1700-abc.pdf'']
          = ''/srv/Backend/uploads/records/1700-abc.pdf''"
    by (simp add: example_destination) (simp add: exampleEnv_def posix_join_upload)
  then show ?thesis
    by (simp add: upload_fields_def storeFile_def Let_def bobPut_def newPart_def)
       (simp add: exampleWorld_def)
qed

lemma route_put_not_owner:
  assumes "protect env (authorization h) = Inr uid"
    and "\<not> repoFails env (FindById (url_id h))"
    and "records w (url_id h) = Some stored"
    and "user stored \<noteq> uid"
  shows "route_put env h w = (notAuthorized, snd (upload_fields env h w))"
  using assms by (simp add: route_put_def Let_def updateRecord_def upload_fields_records)

lemma route_delete_not_owner:
  assumes "protect env (authorization h) = Inr uid"
    and "\<not> repoFails env (FindById (url_id h))"
    and "records w (url_id h) = Some stored"
    and "user stored \<noteq> uid"
  shows "route_delete env h w = (notAuthorized, w)"
  using assms by (simp add: route_delete_def deleteRecord_def)

lemma example_bobPut:
  "protect exampleEnv (authorization bobPut) = Inr ''bob''"
  "\<not> repoFails exampleEnv (FindById (url_id bobPut))"
  "records exampleWorld (url_id bobPut) = Some exampleRecord"
  "user exampleRecord \<noteq> ''bob''"
  by (simp_all add: example_defs bobPut_def)

lemma route_post_records_fail:
  "status (fst (route_post env h w)) \<noteq> 201 \<Longrightarrow> records (snd (route_post env h w)) = records w"
  by (cases "protect env (authorization h)")
     (auto simp: route_post_def Let_def upload_fields_records dest!: createRecord_failure)

lemma route_put_records_fail:
  "status (fst (route_put env h w)) \<noteq> 200 \<Longrightarrow> records (snd (route_put env h w)) = records w"
  by (cases "protect env (authorization h)")
     (auto simp: route_put_def Let_def upload_fields_records dest!: updateRecord_failure_records)

lemma example_badVitalsPost_upload:
  "snd (upload_fields exampleEnv badVitalsPost exampleWorld) =
     exampleWorld\<lparr>disk := (disk exampleWorld)(''/srv/Backend/uploads/records/1700-abc.pdf'' \<mapsto> ''DATA''),
                  trace := [FileWritten ''/srv/Backend/uploads/records/1700-abc.pdf'']\<rparr>"
proof -
  have "path_join exampleEnv [destination exampleEnv ''labReport'', ''1700-abc.pdf'']
          = ''/srv/Backend/uploads/records/1700-abc.pdf''"
    by (simp add: example_destination) (simp add: exampleEnv_def posix_join_upload)
  then show ?thesis
    by (simp add: upload_fields_def storeFile_def Let_def badVitalsPost_def newPart_def)
       (simp add: exampleWorld_def)
qed

lemma example_badVitalsPost_run:
  "route_post exampleEnv badVitalsPost exampleWorld =
     (createFailed, snd (upload_fields exampleEnv badVitalsPost exampleWorld))"
proof -
  have p: "protect exampleEnv (authorization badVitalsPost) = Inr ''alice''"
    by (simp add: badVitalsPost_def exampleEnv_def exampleProtect_def)
  have v: "parseVitalsField exampleEnv (body_vitals (form badVitalsPost)) = Inl SyntaxError"
    by (simp add: parseVitalsField_def badVitalsPost_def noBody_def exampleEnv_def
          exampleParse_def)
  show ?thesis
    by (simp add: route_post_def Let_def createRecord_unfold p v)
qed

lemma example_emptyTitleLabUpdate_run:
  "fst (updateRecord exampleEnv emptyTitleLabUpdate uploadedWorld) = updateFailed"
  "records (snd (updateRecord exampleEnv emptyTitleLabUpdate uploadedWorld)) ''r1''
     = Some exampleRecord"
  "disk uploadedWorld ''/srv/Backend/uploads/records/lab1.pdf'' = Some ''LAB''"
  "disk (snd (updateRecord exampleEnv emptyTitleLabUpdate uploadedWorld))
     ''/srv/Backend/uploads/records/lab1.pdf'' = None"
proof -
  have h: "\<not> repoFails exampleEnv (FindById (params_id emptyTitleLabUpdate))"
    "records uploadedWorld (params_id emptyTitleLabUpdate) = Some exampleRecord"
    "user exampleRecord = user_id emptyTitleLabUpdate"
    by (simp_all add: example_defs emptyTitleLabUpdate_def uploadedWorld_def)
  have bad: "validationFails (fst (applyUpdate exampleEnv emptyTitleLabUpdate exampleRecord parsed uploadedWorld))"
    for parsed
    by (simp add: validationFails_def applyUpdate_doc emptyTitleLabUpdate_def noBody_def)
  have parse: "parseVitalsField exampleEnv (body_vitals (body emptyTitleLabUpdate)) = Inr None"
    by (simp add: parseVitalsField_def emptyTitleLabUpdate_def noBody_def)
  have run: "updateRecord exampleEnv emptyTitleLabUpdate uploadedWorld =
      (updateFailed, snd (applyUpdate exampleEnv emptyTitleLabUpdate exampleRecord None uploadedWorld))"
    by (simp add: updateRecord_owner [OF h] parse save_def bad)
  have files: "file_labReport (req_files emptyTitleLabUpdate) = Some ''lab2.pdf''"
    "file_prescription (req_files emptyTitleLabUpdate) = None"
    "labReport (files exampleRecord) = ''/uploads/records/lab1.pdf''"
    by (simp_all add: emptyTitleLabUpdate_def noFiles_def exampleRecord_def)
  show "fst (updateRecord exampleEnv emptyTitleLabUpdate uploadedWorld) = updateFailed"
    by (simp add: run)
  show "records (snd (updateRecord exampleEnv emptyTitleLabUpdate uploadedWorld)) ''r1''
     = Some exampleRecord"
    by (simp add: run applyUpdate_records) (simp add: uploadedWorld_def exampleWorld_def)
  show "disk uploadedWorld ''/srv/Backend/uploads/records/lab1.pdf'' = Some ''LAB''"
    by (simp add: uploadedWorld_def exampleWorld_def)
  show "disk (snd (updateRecord exampleEnv emptyTitleLabUpdate uploadedWorld))
     ''/srv/Backend/uploads/records/lab1.pdf'' = None"
    using deleteFileIfExists_gone [of "''/uploads/records/lab1.pdf''" exampleEnv uploadedWorld]
    by (simp add: run applyUpdate_world files Let_def example_fullPaths exampleEnv_reliable)
qed

lemma applyUpdate_trace:
  "trace (snd (applyUpdate env req stored parsed w)) = trace w @ replaceEvents env req stored w"
  by (simp add: applyUpdate_world replaceEvents_def Let_def deleteFileIfExists_trace
      split: option.splits)

lemma replaceEvents_kinds:
  "e \<in> set (replaceEvents env req stored w) \<Longrightarrow> \<exists>p. e = Unlinked p \<or> e = UnlinkFailed p"
  by (auto simp: replaceEvents_def Let_def split: option.splits dest: unlinkEvents_kinds)

lemma replaceEvents_labReport:
  assumes "file_labReport (req_files req) = Some fn"
    and "labReport (files stored) \<noteq> []"
    and "disk w (fullPathOf env (labReport (files stored))) \<noteq> None"
  shows "Unlinked (fullPathOf env (labReport (files stored))) \<in> set (replaceEvents env req stored w)
       \<or> UnlinkFailed (fullPathOf env (labReport (files stored)))
            \<in> set (replaceEvents env req stored w)"
  using assms unlinkEvents_attempt [of "labReport (files stored)" w env]
  by (auto simp: replaceEvents_def Let_def)

lemma replaceEvents_prescription:
  assumes "file_prescription (req_files req) = Some fn"
    and "prescription (files stored) \<noteq> []"
    and "disk w (fullPathOf env (prescription (files stored))) \<noteq> None"
  shows "Unlinked (fullPathOf env (prescription (files stored)))
            \<in> set (replaceEvents env req stored w)
       \<or> UnlinkFailed (fullPathOf env (prescription (files stored)))
            \<in> set (replaceEvents env req stored w)"
proof (cases "file_labReport (req_files req)")
  case None
  with assms unlinkEvents_attempt [of "prescription (files stored)" w env]
  show ?thesis by (auto simp: replaceEvents_def Let_def)
next
  case (Some fn')
  let ?w1 = "deleteFileIfExists env (labReport (files stored)) w"
  show ?thesis
  proof (cases "disk ?w1 (fullPathOf env (prescription (files stored)))")
    case None
    with assms(3) have "labReport (files stored) \<noteq> []"
      and same: "fullPathOf env (prescription (files stored))
                   = fullPathOf env (labReport (files stored))"
      and "\<not> unlinkFails env (fullPathOf env (labReport (files stored)))"
      by (auto simp: deleteFileIfExists_def Let_def split: if_splits option.splits)
    with assms(3) have "Unlinked (fullPathOf env (labReport (files stored)))
                          \<in> set (unlinkEvents env (labReport (files stored)) w)"
      by (auto simp: unlinkEvents_def)
    with Some same show ?thesis
      by (simp add: replaceEvents_def Let_def)
  next
    case (Some c)
    with assms(2) unlinkEvents_attempt [of "prescription (files stored)" ?w1 env]
    have "Unlinked (fullPathOf env (prescription (files stored)))
            \<in> set (unlinkEvents env (prescription (files stored)) ?w1)
        \<or> UnlinkFailed (fullPathOf env (prescription (files stored)))
            \<in> set (unlinkEvents env (prescription (files stored)) ?w1)"
      by simp
    with assms(1) \<open>file_labReport (req_files req) = Some fn'\<close> show ?thesis
      by (auto simp: replaceEvents_def Let_def)
  qed
qed

lemma applyUpdate_labReport_gone:
  assumes "file_labReport (req_files req) = Some fn"
    and "labReport (files stored) \<noteq> []"
    and "\<not> unlinkFails env (fullPathOf env (labReport (files stored)))"
  shows "disk (snd (applyUpdate env req stored parsed w))
           (fullPathOf env (labReport (files stored))) = None"
  using assms
  by (simp add: applyUpdate_world Let_def deleteFileIfExists_gone deleteFileIfExists_disk_mono
      split: option.splits)

lemma applyUpdate_prescription_gone:
  assumes "file_prescription (req_files req) = Some fn"
    and "prescription (files stored) \<noteq> []"
    and "\<not> unlinkFails env (fullPathOf env (prescription (files stored)))"
  shows "disk (snd (applyUpdate env req stored parsed w))
           (fullPathOf env (prescription (files stored))) = None"
  using assms
  by (simp add: applyUpdate_world Let_def deleteFileIfExists_gone split: option.splits)

lemma applyUpdate_disk_other:
  assumes "file_labReport (req_files req) = None \<or> q \<noteq> fullPathOf env (labReport (files stored))"
    and "file_prescription (req_files req) = None
         \<or> q \<noteq> fullPathOf env (prescription (files stored))"
  shows "disk (snd (applyUpdate env req stored parsed w)) q = disk w q"
  using assms
  by (auto simp: applyUpdate_world Let_def deleteFileIfExists_disk_other split: option.splits)

lemma deleteAccount_disk:
  "disk (snd (deleteAccount env req w)) = disk w"
  by (simp add: deleteAccount_def Let_def)

lemma parseVitalsField_falsy:
  "parseVitalsField env None = Inr None"
  "parseVitalsField env (Some []) = Inr None"
  by (simp_all add: parseVitalsField_def)

lemma JSON_parse_unused:
  "save (env\<lparr>JSON_parse := p\<rparr>) d w = save env d w"
  "deleteFileIfExists (env\<lparr>JSON_parse := p\<rparr>) x w = deleteFileIfExists env x w"
  "newRecord (env\<lparr>JSON_parse := p\<rparr>) uid b None = newRecord env uid b None"
  by (simp_all add: save_def deleteFileIfExists_def fullPathOf_def controllers_dirname_def
        newRecord_def Let_def)

lemma JSON_parse_unused_replace:
  "replaceLabReport (env\<lparr>JSON_parse := p\<rparr>) f dw = replaceLabReport env f dw"
  "replacePrescription (env\<lparr>JSON_parse := p\<rparr>) f dw = replacePrescription env f dw"
  by (simp_all add: replaceLabReport_def replacePrescription_def JSON_parse_unused
      split: option.splits)

lemma createRecord_JSON_parse_unused:
  assumes "body_vitals (body req) = None \<or> body_vitals (body req) = Some []"
  shows "createRecord (env\<lparr>JSON_parse := p\<rparr>) req w = createRecord env req w"
  using assms
  by (elim disjE)
     (simp_all add: createRecord_def parseVitalsField_falsy JSON_parse_unused
        JSON_parse_unused_replace)

lemma updateRecord_JSON_parse_unused:
  assumes "body_vitals (body req) = None \<or> body_vitals (body req) = Some []"
  shows "updateRecord (env\<lparr>JSON_parse := p\<rparr>) req w = updateRecord env req w"
  using assms
  by (elim disjE)
     (simp_all add: updateRecord_def parseVitalsField_falsy JSON_parse_unused
        JSON_parse_unused_replace
      cong: if_cong option.case_cong)

lemma createRecord_vitals_absent:
  "body_vitals (body req) = Some [] \<Longrightarrow>
     createRecord env req w = createRecord env (req\<lparr>body := (body req)\<lparr>body_vitals := None\<rparr>\<rparr>) w"
  by (simp add: createRecord_def parseVitalsField_falsy newRecord_def Let_def)

lemma assignTextFields_vitals_irrelevant:
  "assignTextFields (b\<lparr>body_vitals := v\<rparr>) d = assignTextFields b d"
  by (simp add: assignTextFields_def)

lemma updateRecord_vitals_absent:
  "body_vitals (body req) = Some [] \<Longrightarrow>
     updateRecord env req w = updateRecord env (req\<lparr>body := (body req)\<lparr>body_vitals := None\<rparr>\<rparr>) w"
  by (simp add: updateRecord_def parseVitalsField_falsy assignTextFields_vitals_irrelevant
      cong: if_cong option.case_cong)

lemma createRecord_default_vitals:
  assumes "parseVitalsField env (body_vitals (body req)) = Inr None"
    and "status (fst (createRecord env req w)) = 201"
  shows "map_option vitals (records (snd (createRecord env req w)) (newObjectId env))
           = Some emptyVitals"
proof (cases "save env (buildRecord env req None) w")
  case (Inl e)
  with assms show ?thesis by (simp add: createRecord_unfold createFailed_def)
next
  case (Inr w')
  from save_Inr [OF Inr] assms(1) Inr show ?thesis
    by (simp add: createRecord_unfold buildRecord_doc buildRecord_vitals_default)
qed

lemma updateRecord_keeps_vitals:
  assumes "\<not> repoFails env (FindById (params_id req))"
    and "records w (params_id req) = Some stored"
    and "user stored = user_id req"
    and "status (fst (updateRecord env req w)) = 200"
    and "parseVitalsField env (body_vitals (body req)) = Inr None"
  shows "map_option vitals (records (snd (updateRecord env req w)) (params_id req))
           = Some (vitals stored)"
proof -
  from assms(1-4) obtain parsed where
    parsed: "parseVitalsField env (body_vitals (body req)) = Inr parsed"
    and run: "updateRecord env req w =
       (\<lparr>status = 200,
         json = RecordJson (params_id req) (doc (fst (applyUpdate env req stored parsed w)))\<rparr>,
        (snd (applyUpdate env req stored parsed w))
          \<lparr>records := (records w)(params_id req \<mapsto> doc (fst (applyUpdate env req stored parsed w))),
           trace := trace (snd (applyUpdate env req stored parsed w)) @ [Saved (params_id req)]\<rparr>)"
    by (rule updateRecord_success)
  from parsed assms(5) have "parsed = None" by simp
  then show ?thesis by (simp add: run applyUpdate_vitals(1))
qed

text \<open>
  The attachment replacement of \<^verbatim>\<open>updateRecord\<close> when the owner's update succeeds, from
  the world in which the handler starts: the references stored afterwards, the unlink
  attempts before the save, and the files that are left alone.
\<close>

lemma updateRecord_replacement:
  assumes "\<not> repoFails env (FindById (params_id req))"
    and "records w (params_id req) = Some stored"
    and "user stored = user_id req"
    and "status (fst (updateRecord env req w)) = 200"
  shows "\<exists>r' evs.
           records (snd (updateRecord env req w)) (params_id req) = Some r'
         \<and> labReport (files r') =
             (case file_labReport (req_files req) of
                None \<Rightarrow> labReport (files stored)
              | Some fn \<Rightarrow> buildPublicPath ''records'' fn)
         \<and> prescription (files r') =
             (case file_prescription (req_files req) of
                None \<Rightarrow> prescription (files stored)
              | Some fn \<Rightarrow> buildPublicPath ''records'' fn)
         \<and> trace (snd (updateRecord env req w)) = trace w @ evs @ [Saved (params_id req)]
         \<and> (\<forall>e\<in>set evs. \<exists>p. e = Unlinked p \<or> e = UnlinkFailed p)
         \<and> (file_labReport (req_files req) \<noteq> None \<and> labReport (files stored) \<noteq> []
              \<and> disk w (fullPathOf env (labReport (files stored))) \<noteq> None
            \<longrightarrow> Unlinked (fullPathOf env (labReport (files stored))) \<in> set evs
              \<or> UnlinkFailed (fullPathOf env (labReport (files stored))) \<in> set evs)
         \<and> (file_prescription (req_files req) \<noteq> None \<and> prescription (files stored) \<noteq> []
              \<and> disk w (fullPathOf env (prescription (files stored))) \<noteq> None
            \<longrightarrow> Unlinked (fullPathOf env (prescription (files stored))) \<in> set evs
              \<or> UnlinkFailed (fullPathOf env (prescription (files stored))) \<in> set evs)
         \<and> (file_labReport (req_files req) \<noteq> None \<and> labReport (files stored) \<noteq> []
              \<and> \<not> unlinkFails env (fullPathOf env (labReport (files stored)))
            \<longrightarrow> disk (snd (updateRecord env req w))
                  (fullPathOf env (labReport (files stored))) = None)
         \<and> (file_prescription (req_files req) \<noteq> None \<and> prescription (files stored) \<noteq> []
              \<and> \<not> unlinkFails env (fullPathOf env (prescription (files stored)))
            \<longrightarrow> disk (snd (updateRecord env req w))
                  (fullPathOf env (prescription (files stored))) = None)
         \<and> (\<forall>q. (file_labReport (req_files req) = None
                   \<or> q \<noteq> fullPathOf env (labReport (files stored)))
                \<and> (file_prescription (req_files req) = None
                   \<or> q \<noteq> fullPathOf env (prescription (files stored)))
              \<longrightarrow> disk (snd (updateRecord env req w)) q = disk w q)"
proof -
  from assms obtain parsed where
    run: "updateRecord env req w =
       (\<lparr>status = 200,
         json = RecordJson (params_id req) (doc (fst (applyUpdate env req stored parsed w)))\<rparr>,
        (snd (applyUpdate env req stored parsed w))
          \<lparr>records := (records w)(params_id req \<mapsto> doc (fst (applyUpdate env req stored parsed w))),
           trace := trace (snd (applyUpdate env req stored parsed w)) @ [Saved (params_id req)]\<rparr>)"
    by (rule updateRecord_success)
  let ?d = "fst (applyUpdate env req stored parsed w)"
  let ?W = "snd (applyUpdate env req stored parsed w)"
  let ?evs = "replaceEvents env req stored w"
  have rec: "records (snd (updateRecord env req w)) (params_id req) = Some (doc ?d)"
    by (simp add: run)
  have tr: "trace (snd (updateRecord env req w)) = trace w @ ?evs @ [Saved (params_id req)]"
    by (simp add: run applyUpdate_trace)
  have dk: "disk (snd (updateRecord env req w)) = disk ?W"
    by (simp add: run)
  have kinds: "\<forall>e\<in>set ?evs. \<exists>p. e = Unlinked p \<or> e = UnlinkFailed p"
    by (blast dest: replaceEvents_kinds)
  have lab_att: "file_labReport (req_files req) \<noteq> None \<and> labReport (files stored) \<noteq> []
              \<and> disk w (fullPathOf env (labReport (files stored))) \<noteq> None
            \<longrightarrow> Unlinked (fullPathOf env (labReport (files stored))) \<in> set ?evs
              \<or> UnlinkFailed (fullPathOf env (labReport (files stored))) \<in> set ?evs"
    using replaceEvents_labReport [of req _ stored w env] by blast
  have rx_att: "file_prescription (req_files req) \<noteq> None \<and> prescription (files stored) \<noteq> []
              \<and> disk w (fullPathOf env (prescription (files stored))) \<noteq> None
            \<longrightarrow> Unlinked (fullPathOf env (prescription (files stored))) \<in> set ?evs
              \<or> UnlinkFailed (fullPathOf env (prescription (files stored))) \<in> set ?evs"
    using replaceEvents_prescription [of req _ stored w env] by blast
  have lab_gone: "file_labReport (req_files req) \<noteq> None \<and> labReport (files stored) \<noteq> []
              \<and> \<not> unlinkFails env (fullPathOf env (labReport (files stored)))
            \<longrightarrow> disk (snd (updateRecord env req w))
                  (fullPathOf env (labReport (files stored))) = None"
    using applyUpdate_labReport_gone [of req _ stored env parsed w] by (auto simp: dk)
  have rx_gone: "file_prescription (req_files req) \<noteq> None \<and> prescription (files stored) \<noteq> []
              \<and> \<not> unlinkFails env (fullPathOf env (prescription (files stored)))
            \<longrightarrow> disk (snd (updateRecord env req w))
                  (fullPathOf env (prescription (files stored))) = None"
    using applyUpdate_prescription_gone [of req _ stored env parsed w] by (auto simp: dk)
  have other: "\<forall>q. (file_labReport (req_files req) = None
                   \<or> q \<noteq> fullPathOf env (labReport (files stored)))
                \<and> (file_prescription (req_files req) = None
                   \<or> q \<noteq> fullPathOf env (prescription (files stored)))
              \<longrightarrow> disk (snd (updateRecord env req w)) q = disk w q"
    by (simp add: dk applyUpdate_disk_other)
  show ?thesis
    apply (rule exI [of _ "doc ?d"])
    apply (rule exI [of _ ?evs])
    apply (intro conjI)
             apply (fact rec)
            apply (simp add: applyUpdate_doc)
           apply (simp add: applyUpdate_doc)
          apply (fact tr)
         apply (fact kinds)
        apply (fact lab_att)
       apply (fact rx_att)
      apply (fact lab_gone)
     apply (fact rx_gone)
    apply (fact other)
    done
qed

lemma route_put_authenticated:
  "protect env (authorization h) = Inr uid \<Longrightarrow>
     route_put env h w = updateRecord env (putRequest uid h) (snd (upload_fields env h w))"
  by (simp add: route_put_def putRequest_def upload_fields_def Let_def)

lemma putRequest_simps:
  "params_id (putRequest uid h) = url_id h"
  "user_id (putRequest uid h) = uid"
  "body (putRequest uid h) = form h"
  "file_labReport (req_files (putRequest uid h)) = map_option part_filename (part_labReport h)"
  "file_prescription (req_files (putRequest uid h))
     = map_option part_filename (part_prescription h)"
  by (simp_all add: putRequest_def)

lemma upload_fields_labReport_written:
  assumes "part_labReport h = Some p"
    and "\<forall>p'. part_prescription h = Some p' \<longrightarrow>
           path_join env [destination env ''prescription'', part_filename p']
             \<noteq> path_join env [destination env ''labReport'', part_filename p]"
  shows "disk (snd (upload_fields env h w))
           (path_join env [destination env ''labReport'', part_filename p]) = Some (part_data p)"
  using assms
  by (auto simp: upload_fields_def storeFile_def Let_def split: option.splits)

lemma upload_fields_prescription_written:
  assumes "part_prescription h = Some p"
  shows "disk (snd (upload_fields env h w))
           (path_join env [destination env ''prescription'', part_filename p])
         = Some (part_data p)"
  using assms
  by (auto simp: upload_fields_def storeFile_def Let_def split: option.splits)

lemma upload_fields_disk_other:
  assumes "\<forall>p. part_labReport h = Some p \<longrightarrow>
             q \<noteq> path_join env [destination env ''labReport'', part_filename p]"
    and "\<forall>p. part_prescription h = Some p \<longrightarrow>
             q \<noteq> path_join env [destination env ''prescription'', part_filename p]"
  shows "disk (snd (upload_fields env h w)) q = disk w q"
  using assms
  by (auto simp: upload_fields_def storeFile_def Let_def split: option.splits)

lemma upload_fields_present:
  assumes "disk w q \<noteq> None"
  shows "disk (snd (upload_fields env h w)) q \<noteq> None"
proof
  assume "disk (snd (upload_fields env h w)) q = None"
  then have "disk w q = None" by (rule upload_fields_keeps)
  with assms show False by blast
qed

lemma example_aliceLabPut:
  "protect exampleEnv (authorization aliceLabPut) = Inr ''alice''"
  "\<not> repoFails exampleEnv (FindById (url_id aliceLabPut))"
  "records exampleWorld (url_id aliceLabPut) = Some exampleRecord"
  "user exampleRecord = ''alice''"
  by (simp_all add: example_defs aliceLabPut_def)

lemma example_emptyTitleLabPut:
  "protect exampleEnv (authorization emptyTitleLabPut) = Inr ''alice''"
  "\<not> repoFails exampleEnv (FindById (url_id emptyTitleLabPut))"
  "records exampleWorld (url_id emptyTitleLabPut) = Some exampleRecord"
  by (simp_all add: example_defs aliceLabPut_def emptyTitleLabPut_def)

lemma example_upload_path:
  "path_join exampleEnv [destination exampleEnv ''labReport'', ''1700-abc.pdf'']
     = ''/srv/Backend/uploads/records/1700-abc.pdf''"
  by (simp add: example_destination) (simp add: exampleEnv_def posix_join_upload)

lemma posix_join_new:
  "posix_join [''/srv/Backend/controllers'', ''..'', ''/uploads/records/1700-abc.pdf'']
     = ''/srv/Backend/uploads/records/1700-abc.pdf''"
  by (simp add: posix_join_def normalize_def)

lemma example_fullPath_new:
  "fullPathOf exampleEnv ''/uploads/records/1700-abc.pdf''
     = ''/srv/Backend/uploads/records/1700-abc.pdf''"
  by (simp add: fullPathOf_def controllers_dirname_def exampleEnv_def posix_join_new)

lemma example_labPut_upload:
  "disk (snd (upload_fields exampleEnv aliceLabPut exampleWorld))
     ''/srv/Backend/uploads/records/lab1.pdf'' = Some ''LAB''"
  "disk (snd (upload_fields exampleEnv emptyTitleLabPut exampleWorld))
     ''/srv/Backend/uploads/records/lab1.pdf'' = Some ''LAB''"
  "records (snd (upload_fields exampleEnv emptyTitleLabPut exampleWorld)) = records exampleWorld"
  by (simp_all add: upload_fields_disk_other upload_fields_records aliceLabPut_def
        emptyTitleLabPut_def newPart_def example_upload_path)
     (simp_all add: exampleWorld_def)

text \<open>The PUT with the empty title: answered 500 after the old lab report was unlinked.\<close>

lemma example_emptyTitleLabPut_run:
  "fst (route_put exampleEnv emptyTitleLabPut exampleWorld) = updateFailed"
  "records (snd (route_put exampleEnv emptyTitleLabPut exampleWorld)) ''r1'' = Some exampleRecord"
  "disk (snd (route_put exampleEnv emptyTitleLabPut exampleWorld))
     ''/srv/Backend/uploads/records/lab1.pdf'' = None"
proof -
  let ?req = "putRequest ''alice'' emptyTitleLabPut"
  let ?w = "snd (upload_fields exampleEnv emptyTitleLabPut exampleWorld)"
  have h: "\<not> repoFails exampleEnv (FindById (params_id ?req))"
    "records ?w (params_id ?req) = Some exampleRecord"
    "user exampleRecord = user_id ?req"
    by (simp_all add: putRequest_simps upload_fields_records example_emptyTitleLabPut
          exampleEnv_reliable)
       (simp add: exampleRecord_def)
  have bad: "validationFails (fst (applyUpdate exampleEnv ?req exampleRecord parsed ?w))" for parsed
    by (simp add: validationFails_def applyUpdate_doc putRequest_simps)
       (simp add: emptyTitleLabPut_def aliceLabPut_def noBody_def)
  have parse: "parseVitalsField exampleEnv (body_vitals (body ?req)) = Inr None"
    by (simp add: putRequest_simps parseVitalsField_def emptyTitleLabPut_def aliceLabPut_def
          noBody_def)
  have run: "route_put exampleEnv emptyTitleLabPut exampleWorld =
      (updateFailed, snd (applyUpdate exampleEnv ?req exampleRecord None ?w))"
    by (simp add: route_put_authenticated [OF example_emptyTitleLabPut(1)]
          updateRecord_owner [OF h] parse save_def bad)
  have files: "file_labReport (req_files ?req) = Some ''1700-abc.pdf''"
    "file_prescription (req_files ?req) = None"
    "labReport (files exampleRecord) = ''/uploads/records/lab1.pdf''"
    by (simp_all add: putRequest_simps emptyTitleLabPut_def aliceLabPut_def newPart_def
          exampleRecord_def)
  show "fst (route_put exampleEnv emptyTitleLabPut exampleWorld) = updateFailed"
    by (simp add: run)
  show "records (snd (route_put exampleEnv emptyTitleLabPut exampleWorld)) ''r1''
          = Some exampleRecord"
    by (simp add: run applyUpdate_records upload_fields_records) (simp add: exampleWorld_def)
  show "disk (snd (route_put exampleEnv emptyTitleLabPut exampleWorld))
     ''/srv/Backend/uploads/records/lab1.pdf'' = None"
    using deleteFileIfExists_gone [of "''/uploads/records/lab1.pdf''" exampleEnv ?w]
    by (simp add: run applyUpdate_world files Let_def example_fullPaths exampleEnv_reliable)
qed

lemma deleteFileIfExists_disk_kept:
  "p = [] \<or> q \<noteq> fullPathOf env p \<Longrightarrow> disk (deleteFileIfExists env p w) q = disk w q"
  by (auto simp: deleteFileIfExists_def Let_def split: option.splits)

lemma applyUpdate_disk_kept:
  assumes "file_labReport (req_files req) = None \<or> labReport (files stored) = []
           \<or> q \<noteq> fullPathOf env (labReport (files stored))"
    and "file_prescription (req_files req) = None \<or> prescription (files stored) = []
         \<or> q \<noteq> fullPathOf env (prescription (files stored))"
  shows "disk (snd (applyUpdate env req stored parsed w)) q = disk w q"
proof -
  have lab: "disk (case file_labReport (req_files req) of
                     None \<Rightarrow> w
                   | Some fn \<Rightarrow> deleteFileIfExists env (labReport (files stored)) w) q
             = disk w q"
    using assms(1) by (cases "file_labReport (req_files req)")
      (simp_all add: deleteFileIfExists_disk_kept)
  show ?thesis
    using assms(2) lab
    by (cases "file_prescription (req_files req)")
       (simp_all add: applyUpdate_world Let_def deleteFileIfExists_disk_kept)
qed

lemma example_aliceLabPut_ok:
  "status (fst (route_put exampleEnv aliceLabPut exampleWorld)) = 200"
proof -
  let ?req = "putRequest ''alice'' aliceLabPut"
  let ?w = "snd (upload_fields exampleEnv aliceLabPut exampleWorld)"
  have h: "\<not> repoFails exampleEnv (FindById (params_id ?req))"
    "records ?w (params_id ?req) = Some exampleRecord"
    "user exampleRecord = user_id ?req"
    by (simp_all add: putRequest_simps upload_fields_records example_aliceLabPut
          exampleEnv_reliable)
  have parse: "parseVitalsField exampleEnv (body_vitals (body ?req)) = Inr None"
    by (simp add: putRequest_simps parseVitalsField_def aliceLabPut_def noBody_def)
  have valid: "\<not> validationFails (fst (applyUpdate exampleEnv ?req exampleRecord None ?w))"
    by (simp add: validationFails_def applyUpdate_doc putRequest_simps)
       (simp add: applyUpdate_def Let_def replaceLabReport_doc replacePrescription_doc
          assignTextFields_rest aliceLabPut_def noBody_def exampleRecord_def)
  show ?thesis
    by (simp add: route_put_authenticated [OF example_aliceLabPut(1)]
          updateRecord_owner [OF h] parse save_def valid applyUpdate_doc exampleEnv_reliable)
qed

lemma example_aliceLabPut_trace:
  "trace (snd (route_put exampleEnv aliceLabPut exampleWorld))
     = [FileWritten ''/srv/Backend/uploads/records/1700-abc.pdf'',
        Unlinked ''/srv/Backend/uploads/records/lab1.pdf'',
        Saved ''r1'']"
proof -
  let ?req = "putRequest ''alice'' aliceLabPut"
  let ?w = "snd (upload_fields exampleEnv aliceLabPut exampleWorld)"
  have h: "\<not> repoFails exampleEnv (FindById (params_id ?req))"
    "records ?w (params_id ?req) = Some exampleRecord"
    "user exampleRecord = user_id ?req"
    by (simp_all add: putRequest_simps upload_fields_records example_aliceLabPut
          exampleEnv_reliable)
  have rp: "route_put exampleEnv aliceLabPut exampleWorld = updateRecord exampleEnv ?req ?w"
    using example_aliceLabPut(1) by (rule route_put_authenticated)
  have ok: "status (fst (updateRecord exampleEnv ?req ?w)) = 200"
    using example_aliceLabPut_ok by (simp add: rp)
  from h ok obtain parsed where
    run: "updateRecord exampleEnv ?req ?w =
       (\<lparr>status = 200,
         json = RecordJson (params_id ?req)
                  (doc (fst (applyUpdate exampleEnv ?req exampleRecord parsed ?w)))\<rparr>,
        (snd (applyUpdate exampleEnv ?req exampleRecord parsed ?w))
          \<lparr>records := (records ?w)(params_id ?req \<mapsto>
              doc (fst (applyUpdate exampleEnv ?req exampleRecord parsed ?w))),
           trace := trace (snd (applyUpdate exampleEnv ?req exampleRecord parsed ?w))
                      @ [Saved (params_id ?req)]\<rparr>)"
    by (rule updateRecord_success)
  have up: "uploadEvents exampleEnv aliceLabPut
              = [FileWritten ''/srv/Backend/uploads/records/1700-abc.pdf'']"
    by (simp add: uploadEvents_def aliceLabPut_def newPart_def example_upload_path)
  have rep: "replaceEvents exampleEnv ?req exampleRecord ?w
               = [Unlinked ''/srv/Backend/uploads/records/lab1.pdf'']"
  proof -
    have files: "file_labReport (req_files ?req) = Some ''1700-abc.pdf''"
      "file_prescription (req_files ?req) = None"
      "labReport (files exampleRecord) = ''/uploads/records/lab1.pdf''"
      by (simp_all add: putRequest_simps aliceLabPut_def newPart_def exampleRecord_def)
    show ?thesis
      by (simp add: replaceEvents_def unlinkEvents_def Let_def files example_fullPaths
            example_labPut_upload exampleEnv_reliable)
  qed
  show ?thesis
    by (simp add: rp run applyUpdate_trace upload_fields_trace up rep putRequest_simps)
       (simp add: exampleWorld_def aliceLabPut_def)
qed

section \<open>Ownership\<close>

text \<open>
  C1. An update or a delete of a record that exists (the lookup returns it) and whose
  owner is not the caller is answered 401 "Not authorized", which is not the 404 answer
  of a missing record, and the handler leaves the world, the stored record included, as
  it was.
\<close>

theorem C1_not_owner_unauthorized:
  assumes "\<not> repoFails env (FindById (params_id req))"
    and "records w (params_id req) = Some stored"
    and "user stored \<noteq> user_id req"
  shows "updateRecord env req w = (notAuthorized, w)
       \<and> deleteRecord env req w = (notAuthorized, w)
       \<and> status notAuthorized = 401
       \<and> notAuthorized \<noteq> notFound
       \<and> records (snd (updateRecord env req w)) (params_id req) = Some stored
       \<and> records (snd (deleteRecord env req w)) (params_id req) = Some stored"
  using assms by (simp add: updateRecord_def deleteRecord_def notAuthorized_def notFound_def)

theorem C1_not_owner_unauthorized_witness:
  "\<not> repoFails exampleEnv (FindById (params_id bobRequest))
   \<and> records exampleWorld (params_id bobRequest) = Some exampleRecord
   \<and> user exampleRecord \<noteq> user_id bobRequest
   \<and> updateRecord exampleEnv bobRequest exampleWorld = (notAuthorized, exampleWorld)
   \<and> deleteRecord exampleEnv bobRequest exampleWorld = (notAuthorized, exampleWorld)"
proof -
  have h1: "\<not> repoFails exampleEnv (FindById (params_id bobRequest))"
    by (simp add: exampleEnv_def)
  have h2: "records exampleWorld (params_id bobRequest) = Some exampleRecord"
    by (simp add: exampleWorld_def bobRequest_def)
  have h3: "user exampleRecord \<noteq> user_id bobRequest"
    by (simp add: exampleRecord_def bobRequest_def)
  show ?thesis
    using h1 h2 h3 C1_not_owner_unauthorized [OF h1 h2 h3] by simp
qed

section \<open>Partial update\<close>

text \<open>
  An update of Alice's record that sends \<^verbatim>\<open>title = ""\<close>: the handler assigns the empty
  title to the document, \<^verbatim>\<open>save()\<close> rejects it (\<^verbatim>\<open>title\<close> is \<^verbatim>\<open>required\<close>), the
  answer is 500 and the stored title is still "Checkup".
\<close>

theorem C2_empty_title_counterexample:
  "fst (updateRecord exampleEnv emptyTitleUpdate exampleWorld) = updateFailed
   \<and> map_option title (records (snd (updateRecord exampleEnv emptyTitleUpdate exampleWorld)) ''r1'')
       = Some (Some ''Checkup'')
   \<and> map_option title (records (snd (updateRecord exampleEnv emptyTitleUpdate exampleWorld)) ''r1'')
       \<noteq> Some (Some [])"
  by (simp add: handler_defs example_defs emptyTitleUpdate_def)

text \<open>
  C2, in the form that holds of the code. For the owner's update of an existing
  record: when the update succeeds, each of \<open>title\<close>, \<open>medicalHistory\<close>, \<open>doctorNotes\<close> of the stored record is the value
  sent if the field is present in the request and the value stored before if it is
  absent, so an empty string that is sent overwrites \<open>medicalHistory\<close> and
  \<open>doctorNotes\<close>; the stored title is never empty. An update that sends the empty string
  as title fails (500 "Update record failed") and leaves the stored records as they
  were.
\<close>

theorem C2_partial_update:
  assumes "\<not> repoFails env (FindById (params_id req))"
    and "records w (params_id req) = Some stored"
    and "user stored = user_id req"
  shows "(status (fst (updateRecord env req w)) = 200 \<longrightarrow>
            (\<exists>r'. records (snd (updateRecord env req w)) (params_id req) = Some r'
               \<and> title r' = (case body_title (body req) of None \<Rightarrow> title stored | Some t \<Rightarrow> Some t)
               \<and> title r' \<noteq> Some []
               \<and> medicalHistory r' = (case body_medicalHistory (body req) of
                                        None \<Rightarrow> medicalHistory stored | Some s \<Rightarrow> s)
               \<and> doctorNotes r' = (case body_doctorNotes (body req) of
                                      None \<Rightarrow> doctorNotes stored | Some s \<Rightarrow> s)))
       \<and> (body_title (body req) = Some [] \<longrightarrow>
            fst (updateRecord env req w) = updateFailed
          \<and> records (snd (updateRecord env req w)) = records w)"
proof (intro conjI impI)
  assume ok: "status (fst (updateRecord env req w)) = 200"
  from assms ok obtain parsed where
    valid: "\<not> validationFails (fst (applyUpdate env req stored parsed w))"
    and run: "updateRecord env req w =
       (\<lparr>status = 200,
         json = RecordJson (params_id req) (doc (fst (applyUpdate env req stored parsed w)))\<rparr>,
        (snd (applyUpdate env req stored parsed w))
          \<lparr>records := (records w)(params_id req \<mapsto> doc (fst (applyUpdate env req stored parsed w))),
           trace := trace (snd (applyUpdate env req stored parsed w)) @ [Saved (params_id req)]\<rparr>)"
    by (rule updateRecord_success)
  from valid have "title (doc (fst (applyUpdate env req stored parsed w))) \<noteq> Some []"
    by (simp add: validationFails_def)
  then show "\<exists>r'. records (snd (updateRecord env req w)) (params_id req) = Some r'
               \<and> title r' = (case body_title (body req) of None \<Rightarrow> title stored | Some t \<Rightarrow> Some t)
               \<and> title r' \<noteq> Some []
               \<and> medicalHistory r' = (case body_medicalHistory (body req) of
                                        None \<Rightarrow> medicalHistory stored | Some s \<Rightarrow> s)
               \<and> doctorNotes r' = (case body_doctorNotes (body req) of
                                      None \<Rightarrow> doctorNotes stored | Some s \<Rightarrow> s)"
    by (simp add: run applyUpdate_doc)
next
  assume empty: "body_title (body req) = Some []"
  have bad: "validationFails (fst (applyUpdate env req stored parsed w))" for parsed
    by (simp add: validationFails_def applyUpdate_doc empty)
  show "fst (updateRecord env req w) = updateFailed"
    using assms by (simp add: updateRecord_owner save_def bad split: sum.splits)
  show "records (snd (updateRecord env req w)) = records w"
    using assms by (simp add: updateRecord_owner save_def bad applyUpdate_records split: sum.splits)
qed

theorem C2_partial_update_witness:
  "status (fst (updateRecord exampleEnv textUpdate exampleWorld)) = 200
   \<and> map_option title (records (snd (updateRecord exampleEnv textUpdate exampleWorld)) ''r1'')
       = Some (Some ''Follow-up'')
   \<and> map_option medicalHistory (records (snd (updateRecord exampleEnv textUpdate exampleWorld)) ''r1'')
       = Some []
   \<and> map_option doctorNotes (records (snd (updateRecord exampleEnv textUpdate exampleWorld)) ''r1'')
       = Some ''rest''
   \<and> body_title (body emptyTitleUpdate) = Some []
   \<and> fst (updateRecord exampleEnv emptyTitleUpdate exampleWorld) = updateFailed
   \<and> records (snd (updateRecord exampleEnv emptyTitleUpdate exampleWorld)) = records exampleWorld"
proof -
  have h1: "\<not> repoFails exampleEnv (FindById (params_id textUpdate))"
    by (simp add: exampleEnv_def)
  have h2: "records exampleWorld (params_id textUpdate) = Some exampleRecord"
    by (simp add: example_defs textUpdate_def)
  have h3: "user exampleRecord = user_id textUpdate"
    by (simp add: example_defs textUpdate_def)
  have ok: "status (fst (updateRecord exampleEnv textUpdate exampleWorld)) = 200"
    by (simp add: handler_defs example_defs textUpdate_def)
  have g1: "\<not> repoFails exampleEnv (FindById (params_id emptyTitleUpdate))"
    by (simp add: exampleEnv_def)
  have g2: "records exampleWorld (params_id emptyTitleUpdate) = Some exampleRecord"
    by (simp add: example_defs emptyTitleUpdate_def)
  have g3: "user exampleRecord = user_id emptyTitleUpdate"
    by (simp add: example_defs emptyTitleUpdate_def)
  have g4: "body_title (body emptyTitleUpdate) = Some []"
    by (simp add: example_defs emptyTitleUpdate_def)
  have b: "body_title (body textUpdate) = Some ''Follow-up''"
    "body_medicalHistory (body textUpdate) = Some []"
    "body_doctorNotes (body textUpdate) = None"
    "doctorNotes exampleRecord = ''rest''" "params_id textUpdate = ''r1''"
    by (simp_all add: example_defs textUpdate_def)
  from C2_partial_update [OF h1 h2 h3] ok b
  have first: "map_option title (records (snd (updateRecord exampleEnv textUpdate exampleWorld)) ''r1'')
       = Some (Some ''Follow-up'')
   \<and> map_option medicalHistory (records (snd (updateRecord exampleEnv textUpdate exampleWorld)) ''r1'')
       = Some []
   \<and> map_option doctorNotes (records (snd (updateRecord exampleEnv textUpdate exampleWorld)) ''r1'')
       = Some ''rest''"
    by auto
  from C2_partial_update [OF g1 g2 g3] g4
  have second: "fst (updateRecord exampleEnv emptyTitleUpdate exampleWorld) = updateFailed
   \<and> records (snd (updateRecord exampleEnv emptyTitleUpdate exampleWorld)) = records exampleWorld"
    by blast
  from ok first g4 second show ?thesis by blast
qed

section \<open>Vitals\<close>

text \<open>
  C3. When the owner's update succeeds and its \<^verbatim>\<open>vitals\<close> field is a non-empty string,
  the string parsed, the parsed value was cast to a vitals structure, and that structure
  as a whole is the stored vitals afterwards, so a field it lacks is absent from the
  stored vitals whatever was stored before. Nothing of the old vitals enters the result:
  the request has the same outcome whatever vitals the record had before.
\<close>

theorem C3_vitals_replaced_wholesale:
  assumes "\<not> repoFails env (FindById (params_id req))"
    and "records w (params_id req) = Some stored"
    and "user stored = user_id req"
    and "status (fst (updateRecord env req w)) = 200"
    and "body_vitals (body req) = Some s"
    and "s \<noteq> []"
  shows "\<exists>j v. JSON_parse env s = Some j \<and> castVitals env j = Some v
           \<and> map_option vitals (records (snd (updateRecord env req w)) (params_id req)) = Some v
           \<and> (\<forall>v0. updateRecord env req
                      (w\<lparr>records := (records w)(params_id req \<mapsto> stored\<lparr>vitals := v0\<rparr>)\<rparr>)
                    = updateRecord env req w)"
proof -
  from assms(1-4) obtain parsed where
    parsed: "parseVitalsField env (body_vitals (body req)) = Inr parsed"
    and valid: "\<not> validationFails (fst (applyUpdate env req stored parsed w))"
    and run: "updateRecord env req w =
       (\<lparr>status = 200,
         json = RecordJson (params_id req) (doc (fst (applyUpdate env req stored parsed w)))\<rparr>,
        (snd (applyUpdate env req stored parsed w))
          \<lparr>records := (records w)(params_id req \<mapsto> doc (fst (applyUpdate env req stored parsed w))),
           trace := trace (snd (applyUpdate env req stored parsed w)) @ [Saved (params_id req)]\<rparr>)"
    by (rule updateRecord_success)
  from parsed assms(5) have "parseVitalsField env (Some s) = Inr parsed"
    by simp
  from parseVitalsField_nonempty [OF assms(6) this]
  obtain j where j: "parsed = Some j" "JSON_parse env s = Some j"
    by (elim exE conjE)
  from valid have "\<not> invalidated (fst (applyUpdate env req stored (Some j) w))"
    by (simp add: validationFails_def j)
  then have "\<exists>v. castVitals env j = Some v
               \<and> vitals (doc (fst (applyUpdate env req stored (Some j) w))) = v"
    by (rule applyUpdate_vitals(2))
  then obtain v where v: "castVitals env j = Some v"
    "vitals (doc (fst (applyUpdate env req stored (Some j) w))) = v"
    by (elim exE conjE)
  have stored': "map_option vitals (records (snd (updateRecord env req w)) (params_id req)) = Some v"
    by (simp add: run j v)
  have indep: "updateRecord env req
                 (w\<lparr>records := (records w)(params_id req \<mapsto> stored\<lparr>vitals := v0\<rparr>)\<rparr>)
               = updateRecord env req w" for v0
  proof -
    let ?w0 = "w\<lparr>records := (records w)(params_id req \<mapsto> stored\<lparr>vitals := v0\<rparr>)\<rparr>"
    let ?d = "fst (applyUpdate env req stored (Some j) w)"
    let ?W = "snd (applyUpdate env req stored (Some j) w)"
    have a: "records ?w0 (params_id req) = Some (stored\<lparr>vitals := v0\<rparr>)"
      and b: "user (stored\<lparr>vitals := v0\<rparr>) = user_id req"
      using assms(3) by simp_all
    have saved: "save env ?d ?W =
        Inr (?W\<lparr>records := (records w)(params_id req \<mapsto> doc ?d),
                trace := trace ?W @ [Saved (params_id req)]\<rparr>)"
      using run parsed assms(1-3) j
      by (simp add: updateRecord_owner updateFailed_def split: sum.splits)
    then have ok: "\<not> validationFails ?d" "\<not> repoFails env (Save (params_id req))"
      by (auto simp: save_def applyUpdate_doc split: if_splits)
    have "updateRecord env req ?w0 =
        (\<lparr>status = 200, json = RecordJson (params_id req) (doc ?d)\<rparr>,
         ?W\<lparr>records := (records w)(params_id req \<mapsto> doc ?d),
            trace := trace ?W @ [Saved (params_id req)]\<rparr>)"
      using ok
      by (simp add: updateRecord_owner [OF _ a b] assms(1) parsed j
            applyUpdate_prior_vitals [OF v(1)] save_def applyUpdate_doc)
    then show ?thesis by (simp add: run j)
  qed
  show ?thesis
  proof (intro exI conjI allI)
    show "JSON_parse env s = Some j" by (fact j(2))
    show "castVitals env j = Some v" by (fact v(1))
    show "map_option vitals (records (snd (updateRecord env req w)) (params_id req)) = Some v"
      by (fact stored')
    show "updateRecord env req
            (w\<lparr>records := (records w)(params_id req \<mapsto> stored\<lparr>vitals := v0\<rparr>)\<rparr>)
          = updateRecord env req w" for v0
      by (fact indep)
  qed
qed

theorem C3_vitals_replaced_wholesale_witness:
  "status (fst (updateRecord exampleEnv vitalsUpdate exampleWorld)) = 200
   \<and> body_vitals (body vitalsUpdate) = Some ''{\"heartRate\":\"75\"}''
   \<and> map_option vitals (records exampleWorld ''r1'')
       = Some \<lparr>bloodPressure = Some ''120/80'', heartRate = Some ''70'',
               bloodSugar = None, weight = None, height = None\<rparr>
   \<and> map_option vitals (records (snd (updateRecord exampleEnv vitalsUpdate exampleWorld)) ''r1'')
       = Some \<lparr>bloodPressure = None, heartRate = Some ''75'',
               bloodSugar = None, weight = None, height = None\<rparr>"
proof -
  have h1: "\<not> repoFails exampleEnv (FindById (params_id vitalsUpdate))"
    by (simp add: exampleEnv_def)
  have h2: "records exampleWorld (params_id vitalsUpdate) = Some exampleRecord"
    by (simp add: example_defs vitalsUpdate_def)
  have h3: "user exampleRecord = user_id vitalsUpdate"
    by (simp add: example_defs vitalsUpdate_def)
  have h4: "status (fst (updateRecord exampleEnv vitalsUpdate exampleWorld)) = 200"
    by (simp add: handler_defs example_defs vitalsUpdate_def)
  have h5: "body_vitals (body vitalsUpdate) = Some ''{\"heartRate\":\"75\"}''"
    by (simp add: example_defs vitalsUpdate_def)
  have h6: "''{\"heartRate\":\"75\"}'' \<noteq> []"
    by simp
  have before: "map_option vitals (records exampleWorld ''r1'')
       = Some \<lparr>bloodPressure = Some ''120/80'', heartRate = Some ''70'',
               bloodSugar = None, weight = None, height = None\<rparr>"
    by (simp add: example_defs)
  have env: "JSON_parse exampleEnv ''{\"heartRate\":\"75\"}'' = Some [(''heartRate'', ''75'')]"
    "castVitals exampleEnv [(''heartRate'', ''75'')]
       = Some \<lparr>bloodPressure = None, heartRate = Some ''75'',
               bloodSugar = None, weight = None, height = None\<rparr>"
    "params_id vitalsUpdate = ''r1''"
    by (simp_all add: example_defs vitalsUpdate_def)
  from C3_vitals_replaced_wholesale [OF h1 h2 h3 h4 h5 h6] env
  have after: "map_option vitals (records (snd (updateRecord exampleEnv vitalsUpdate exampleWorld)) ''r1'')
       = Some \<lparr>bloodPressure = None, heartRate = Some ''75'',
               bloodSugar = None, weight = None, height = None\<rparr>"
    by auto
  from h4 h5 before after show ?thesis by blast
qed

section \<open>Delete\<close>

text \<open>
  C6. When the owner deletes an existing record (the lookup and the removal do not
  fail): the answer is "Record deleted successfully"; the trace grows by unlink attempts
  only, followed by the removal of the record, so every attempt on a file comes before
  the removal; a slot whose reference is not empty and whose file is on disk has an
  attempt (successful or failed) in the trace; when the unlink of a slot's file does not
  fail the file is gone afterwards; the record is absent afterwards; and the same
  request sent again is answered 404 "Record not found" and changes nothing.
\<close>

theorem C6_owner_delete:
  assumes "\<not> repoFails env (FindById (params_id req))"
    and "records w (params_id req) = Some stored"
    and "user stored = user_id req"
    and "\<not> repoFails env (DeleteOne (params_id req))"
  shows "\<exists>evs.
           fst (deleteRecord env req w) = deleted
         \<and> trace (snd (deleteRecord env req w)) = trace w @ evs @ [DeletedOne (params_id req)]
         \<and> (\<forall>e\<in>set evs. \<exists>p. e = Unlinked p \<or> e = UnlinkFailed p)
         \<and> (labReport (files stored) \<noteq> []
              \<and> disk w (fullPathOf env (labReport (files stored))) \<noteq> None
            \<longrightarrow> Unlinked (fullPathOf env (labReport (files stored))) \<in> set evs
              \<or> UnlinkFailed (fullPathOf env (labReport (files stored))) \<in> set evs)
         \<and> (prescription (files stored) \<noteq> []
              \<and> disk w (fullPathOf env (prescription (files stored))) \<noteq> None
            \<longrightarrow> Unlinked (fullPathOf env (prescription (files stored))) \<in> set evs
              \<or> UnlinkFailed (fullPathOf env (prescription (files stored))) \<in> set evs)
         \<and> (labReport (files stored) \<noteq> []
              \<and> \<not> unlinkFails env (fullPathOf env (labReport (files stored)))
            \<longrightarrow> disk (snd (deleteRecord env req w))
                  (fullPathOf env (labReport (files stored))) = None)
         \<and> (prescription (files stored) \<noteq> []
              \<and> \<not> unlinkFails env (fullPathOf env (prescription (files stored)))
            \<longrightarrow> disk (snd (deleteRecord env req w))
                  (fullPathOf env (prescription (files stored))) = None)
         \<and> records (snd (deleteRecord env req w)) (params_id req) = None
         \<and> deleteRecord env req (snd (deleteRecord env req w))
             = (notFound, snd (deleteRecord env req w))"
proof -
  let ?lab = "labReport (files stored)" and ?rx = "prescription (files stored)"
  let ?w1 = "deleteFileIfExists env ?lab w"
  let ?w2 = "deleteFileIfExists env ?rx ?w1"
  let ?evs = "unlinkEvents env ?lab w @ unlinkEvents env ?rx ?w1"
  have run: "deleteRecord env req w =
    (deleted, ?w2\<lparr>records := (records ?w2)(params_id req := None),
                  trace := trace ?w2 @ [DeletedOne (params_id req)]\<rparr>)"
    using assms by (simp add: deleteRecord_def Let_def)
  have tr: "trace ?w2 = trace w @ ?evs"
    by (simp add: deleteFileIfExists_trace)
  have kinds: "\<forall>e\<in>set ?evs. \<exists>p. e = Unlinked p \<or> e = UnlinkFailed p"
    by (auto simp: unlinkEvents_def split: option.splits if_splits)
  have lab_att: "?lab \<noteq> [] \<and> disk w (fullPathOf env ?lab) \<noteq> None
      \<longrightarrow> Unlinked (fullPathOf env ?lab) \<in> set ?evs \<or> UnlinkFailed (fullPathOf env ?lab) \<in> set ?evs"
    by (auto simp: unlinkEvents_def split: option.splits if_splits)
  have rx_att: "?rx \<noteq> [] \<and> disk w (fullPathOf env ?rx) \<noteq> None
      \<longrightarrow> Unlinked (fullPathOf env ?rx) \<in> set ?evs \<or> UnlinkFailed (fullPathOf env ?rx) \<in> set ?evs"
    by (auto simp: unlinkEvents_def deleteFileIfExists_def Let_def split: option.splits if_splits)
  have lab_gone: "?lab \<noteq> [] \<and> \<not> unlinkFails env (fullPathOf env ?lab)
      \<longrightarrow> disk ?w2 (fullPathOf env ?lab) = None"
    by (simp add: deleteFileIfExists_gone deleteFileIfExists_disk_mono)
  have rx_gone: "?rx \<noteq> [] \<and> \<not> unlinkFails env (fullPathOf env ?rx)
      \<longrightarrow> disk ?w2 (fullPathOf env ?rx) = None"
    by (simp add: deleteFileIfExists_gone)
  have "deleteRecord env req (?w2\<lparr>records := (records ?w2)(params_id req := None),
                  trace := trace ?w2 @ [DeletedOne (params_id req)]\<rparr>)
      = (notFound, ?w2\<lparr>records := (records ?w2)(params_id req := None),
                  trace := trace ?w2 @ [DeletedOne (params_id req)]\<rparr>)"
    using assms(1) by (simp add: deleteRecord_def)
  then have again: "deleteRecord env req (snd (deleteRecord env req w))
             = (notFound, snd (deleteRecord env req w))"
    unfolding run by simp
  show ?thesis
    apply (rule exI [of _ ?evs])
    using kinds lab_att rx_att lab_gone rx_gone again
    by (simp add: run tr)
qed

theorem C6_owner_delete_witness:
  "\<not> repoFails exampleEnv (FindById (params_id aliceRequest))
   \<and> records exampleWorld (params_id aliceRequest) = Some exampleRecord
   \<and> user exampleRecord = user_id aliceRequest
   \<and> \<not> repoFails exampleEnv (DeleteOne (params_id aliceRequest))
   \<and> fst (deleteRecord exampleEnv aliceRequest exampleWorld) = deleted
   \<and> records (snd (deleteRecord exampleEnv aliceRequest exampleWorld)) ''r1'' = None
   \<and> disk (snd (deleteRecord exampleEnv aliceRequest exampleWorld))
        ''/srv/Backend/uploads/records/lab1.pdf'' = None
   \<and> disk (snd (deleteRecord exampleEnv aliceRequest exampleWorld))
        ''/srv/Backend/uploads/records/rx1.pdf'' = None
   \<and> deleteRecord exampleEnv aliceRequest (snd (deleteRecord exampleEnv aliceRequest exampleWorld))
       = (notFound, snd (deleteRecord exampleEnv aliceRequest exampleWorld))
   \<and> trace (snd (deleteRecord exampleEnv aliceRequest exampleWorld))
       = [Unlinked ''/srv/Backend/uploads/records/lab1.pdf'',
          Unlinked ''/srv/Backend/uploads/records/rx1.pdf'',
          DeletedOne ''r1'']"
proof -
  have h1: "\<not> repoFails exampleEnv (FindById (params_id aliceRequest))"
    by (simp add: exampleEnv_def)
  have h2: "records exampleWorld (params_id aliceRequest) = Some exampleRecord"
    by (simp add: example_defs)
  have h3: "user exampleRecord = user_id aliceRequest"
    by (simp add: example_defs)
  have h4: "\<not> repoFails exampleEnv (DeleteOne (params_id aliceRequest))"
    by (simp add: exampleEnv_def)
  have refs: "labReport (files exampleRecord) = ''/uploads/records/lab1.pdf''"
    "prescription (files exampleRecord) = ''/uploads/records/rx1.pdf''"
    "params_id aliceRequest = ''r1''"
    "\<not> unlinkFails exampleEnv p" for p
    by (simp_all add: example_defs)
  from C6_owner_delete [OF h1 h2 h3 h4]
  have main: "fst (deleteRecord exampleEnv aliceRequest exampleWorld) = deleted
   \<and> records (snd (deleteRecord exampleEnv aliceRequest exampleWorld)) ''r1'' = None
   \<and> disk (snd (deleteRecord exampleEnv aliceRequest exampleWorld))
        ''/srv/Backend/uploads/records/lab1.pdf'' = None
   \<and> disk (snd (deleteRecord exampleEnv aliceRequest exampleWorld))
        ''/srv/Backend/uploads/records/rx1.pdf'' = None
   \<and> deleteRecord exampleEnv aliceRequest (snd (deleteRecord exampleEnv aliceRequest exampleWorld))
       = (notFound, snd (deleteRecord exampleEnv aliceRequest exampleWorld))"
    by (simp add: refs example_fullPaths) blast
  have tr: "trace (snd (deleteRecord exampleEnv aliceRequest exampleWorld))
       = [Unlinked ''/srv/Backend/uploads/records/lab1.pdf'',
          Unlinked ''/srv/Backend/uploads/records/rx1.pdf'',
          DeletedOne ''r1'']"
    by (rule example_delete_trace)
  from h1 h2 h3 h4 main tr show ?thesis by blast
qed

section \<open>Order of the ownership check and the file store\<close>

text \<open>
  Bob sends a PUT for Alice's record \<open>r1\<close> with a lab report attached. The answer is 401,
  and the file he sent is on disk afterwards: the upload middleware of the route wrote it
  before \<^verbatim>\<open>updateRecord\<close> looked the record up.
\<close>

theorem C4_upload_precedes_ownership_counterexample:
  "fst (route_put exampleEnv bobPut exampleWorld) = notAuthorized
   \<and> disk exampleWorld ''/srv/Backend/uploads/records/1700-abc.pdf'' = None
   \<and> disk (snd (route_put exampleEnv bobPut exampleWorld))
        ''/srv/Backend/uploads/records/1700-abc.pdf'' = Some ''DATA''
   \<and> trace (snd (route_put exampleEnv bobPut exampleWorld))
       = [FileWritten ''/srv/Backend/uploads/records/1700-abc.pdf'']"
  by (simp add: route_put_not_owner [OF example_bobPut] example_bobPut_upload)
     (simp add: exampleWorld_def)

text \<open>
  C4, in the form that holds of the code. When the caller of an update or a delete is
  authenticated but is not the owner of the record: the answer is 401; the delete route leaves the world as it
  was; the update route leaves it as the upload middleware left it, so the stored
  records are unchanged, no file that was on disk is missing afterwards, and the only
  effects are the writes of the files the request carried, which happen before the
  handler's ownership check.
\<close>

theorem C4_non_owner_mutates_nothing:
  assumes "protect env (authorization h) = Inr uid"
    and "\<not> repoFails env (FindById (url_id h))"
    and "records w (url_id h) = Some stored"
    and "user stored \<noteq> uid"
  shows "route_put env h w = (notAuthorized, snd (upload_fields env h w))
       \<and> route_delete env h w = (notAuthorized, w)
       \<and> records (snd (route_put env h w)) = records w
       \<and> (\<forall>p. disk (snd (route_put env h w)) p = None \<longrightarrow> disk w p = None)
       \<and> trace (snd (route_put env h w)) = trace w @ uploadEvents env h
       \<and> (\<forall>e\<in>set (uploadEvents env h). \<exists>p. e = FileWritten p)"
proof -
  have put: "route_put env h w = (notAuthorized, snd (upload_fields env h w))"
    using assms by (rule route_put_not_owner)
  have del: "route_delete env h w = (notAuthorized, w)"
    using assms by (rule route_delete_not_owner)
  show ?thesis
    by (simp add: put del upload_fields_records upload_fields_trace)
       (blast dest: upload_fields_keeps uploadEvents_kinds)
qed

theorem C4_non_owner_mutates_nothing_witness:
  "protect exampleEnv (authorization bobPut) = Inr ''bob''
   \<and> records exampleWorld (url_id bobPut) = Some exampleRecord
   \<and> user exampleRecord \<noteq> ''bob''
   \<and> fst (route_put exampleEnv bobPut exampleWorld) = notAuthorized
   \<and> route_delete exampleEnv bobPut exampleWorld = (notAuthorized, exampleWorld)
   \<and> records (snd (route_put exampleEnv bobPut exampleWorld)) = records exampleWorld
   \<and> disk (snd (route_put exampleEnv bobPut exampleWorld))
        ''/srv/Backend/uploads/records/lab1.pdf'' \<noteq> None"
proof -
  have on_disk: "disk exampleWorld ''/srv/Backend/uploads/records/lab1.pdf'' \<noteq> None"
    by (simp add: exampleWorld_def)
  from C4_non_owner_mutates_nothing [OF example_bobPut] on_disk
  have "fst (route_put exampleEnv bobPut exampleWorld) = notAuthorized
   \<and> route_delete exampleEnv bobPut exampleWorld = (notAuthorized, exampleWorld)
   \<and> records (snd (route_put exampleEnv bobPut exampleWorld)) = records exampleWorld
   \<and> disk (snd (route_put exampleEnv bobPut exampleWorld))
        ''/srv/Backend/uploads/records/lab1.pdf'' \<noteq> None"
    by (metis fst_conv)
  with example_bobPut show ?thesis by blast
qed

section \<open>Failures of create\<close>

text \<open>
  Three create requests that fail for three different reasons (no title; vitals that do
  not parse; a database that rejects the write) get the same answer, and the same request
  as the third succeeds when the database works.
\<close>

theorem C5_failures_masked_counterexample:
  "fst (createRecord exampleEnv createNoTitle exampleWorld) = createFailed
   \<and> fst (createRecord exampleEnv createBadVitals exampleWorld) = createFailed
   \<and> fst (createRecord brokenRepoEnv createOk exampleWorld) = createFailed
   \<and> status (fst (createRecord exampleEnv createOk exampleWorld)) = 201
   \<and> createFailed = \<lparr>status = 500, json = Message ''Create record failed''\<rparr>"
  by (simp add: createRecord_def save_def validationFails_def parseVitalsField_def
        newRecord_def Let_def example_defs createNoTitle_def createBadVitals_def createOk_def
        brokenRepoEnv_def createFailed_def)

text \<open>
  C5, in the form that holds of the code. For every create request, a missing (or
  empty) title, vitals that \<^verbatim>\<open>JSON.parse\<close> rejects and a write that the database rejects all end in the one
  answer 500 "Create record failed", with the world as it was: the caller cannot tell the
  three apart.
\<close>

theorem C5_create_failures_one_outcome:
  assumes "body_title (body req) = None \<or> body_title (body req) = Some []
         \<or> (\<exists>s. body_vitals (body req) = Some s \<and> s \<noteq> [] \<and> JSON_parse env s = None)
         \<or> repoFails env (Save (newObjectId env))"
  shows "createRecord env req w = (createFailed, w)"
proof (cases "parseVitalsField env (body_vitals (body req))")
  case (Inl e)
  then show ?thesis by (simp add: createRecord_unfold)
next
  case (Inr parsed)
  with assms have "validationFails (buildRecord env req parsed)
                 \<or> repoFails env (Save (newObjectId env))"
    by (auto simp: validationFails_def buildRecord_doc parseVitalsField_def)
  then have "save env (buildRecord env req parsed) w = Inl ValidationError
           \<or> save env (buildRecord env req parsed) w = Inl MongoError"
    by (auto simp: save_def buildRecord_doc)
  with Inr show ?thesis by (auto simp: createRecord_unfold)
qed

theorem C5_create_failures_one_outcome_witness:
  "body_title (body createNoTitle) = None
   \<and> createRecord exampleEnv createNoTitle exampleWorld = (createFailed, exampleWorld)
   \<and> body_vitals (body createBadVitals) = Some ''{oops''
   \<and> JSON_parse exampleEnv ''{oops'' = None
   \<and> createRecord exampleEnv createBadVitals exampleWorld = (createFailed, exampleWorld)
   \<and> repoFails brokenRepoEnv (Save (newObjectId brokenRepoEnv))
   \<and> createRecord brokenRepoEnv createOk exampleWorld = (createFailed, exampleWorld)"
proof -
  have a: "body_title (body createNoTitle) = None"
    by (simp add: createNoTitle_def noBody_def)
  have b: "body_vitals (body createBadVitals) = Some ''{oops''"
    "''{oops'' \<noteq> []" "JSON_parse exampleEnv ''{oops'' = None"
    by (simp_all add: createBadVitals_def noBody_def exampleEnv_def exampleParse_def)
  have c: "repoFails brokenRepoEnv (Save (newObjectId brokenRepoEnv))"
    by (simp add: brokenRepoEnv_def)
  have 1: "createRecord exampleEnv createNoTitle exampleWorld = (createFailed, exampleWorld)"
    using a by (intro C5_create_failures_one_outcome) simp
  have 2: "createRecord exampleEnv createBadVitals exampleWorld = (createFailed, exampleWorld)"
    using b by (intro C5_create_failures_one_outcome) simp
  have 3: "createRecord brokenRepoEnv createOk exampleWorld = (createFailed, exampleWorld)"
    using c by (intro C5_create_failures_one_outcome) simp
  from a b c 1 2 3 show ?thesis by blast
qed

section \<open>Failures and persistent mutations\<close>

text \<open>
  A POST with vitals that do not parse and a lab report attached is answered 500, and the
  attached file is on disk afterwards: the file was written before the handler, and so
  before any validation, ran. And an update by the owner that sends the empty title
  together with a new lab report is answered 500 and leaves the stored record as it was,
  but the old lab report, which the record still points at, has been deleted.
\<close>

theorem C7_write_precedes_validation_counterexample:
  "fst (route_post exampleEnv badVitalsPost exampleWorld) = createFailed
   \<and> disk exampleWorld ''/srv/Backend/uploads/records/1700-abc.pdf'' = None
   \<and> disk (snd (route_post exampleEnv badVitalsPost exampleWorld))
        ''/srv/Backend/uploads/records/1700-abc.pdf'' = Some ''DATA''
   \<and> fst (updateRecord exampleEnv emptyTitleLabUpdate uploadedWorld) = updateFailed
   \<and> records (snd (updateRecord exampleEnv emptyTitleLabUpdate uploadedWorld)) ''r1''
       = Some exampleRecord
   \<and> disk uploadedWorld ''/srv/Backend/uploads/records/lab1.pdf'' = Some ''LAB''
   \<and> disk (snd (updateRecord exampleEnv emptyTitleLabUpdate uploadedWorld))
        ''/srv/Backend/uploads/records/lab1.pdf'' = None"
proof -
  have "disk exampleWorld ''/srv/Backend/uploads/records/1700-abc.pdf'' = None"
    by (simp add: exampleWorld_def)
  then show ?thesis
    by (simp add: example_badVitalsPost_run example_badVitalsPost_upload
          example_emptyTitleLabUpdate_run)
qed

text \<open>
  C7, in the form that holds of the code. A create or an update that fails commits
  nothing to the repository: after a failing \<^verbatim>\<open>createRecord\<close> the world is as it was, and after a failing
  \<^verbatim>\<open>updateRecord\<close>, or a failing POST or PUT as a whole, the stored records are as they
  were. When the vitals of an update do not parse, \<^verbatim>\<open>updateRecord\<close> fails and leaves
  the whole world as it was, so no stored record and no attachment file is modified.
  (Uploaded files are not covered: the route has written them before the handler
  validates anything.)
\<close>

theorem C7_failure_commits_nothing:
  "(status (fst (createRecord env req w)) \<noteq> 201 \<longrightarrow> snd (createRecord env req w) = w)
   \<and> (status (fst (updateRecord env req w)) \<noteq> 200 \<longrightarrow>
        records (snd (updateRecord env req w)) = records w)
   \<and> ((\<exists>s. body_vitals (body req) = Some s \<and> s \<noteq> [] \<and> JSON_parse env s = None) \<longrightarrow>
        status (fst (updateRecord env req w)) \<noteq> 200 \<and> snd (updateRecord env req w) = w)
   \<and> (status (fst (route_post env h w)) \<noteq> 201 \<longrightarrow>
        records (snd (route_post env h w)) = records w)
   \<and> (status (fst (route_put env h w)) \<noteq> 200 \<longrightarrow>
        records (snd (route_put env h w)) = records w)"
proof (intro conjI impI)
  assume "status (fst (createRecord env req w)) \<noteq> 201"
  then show "snd (createRecord env req w) = w"
    by (simp add: createRecord_failure)
next
  assume "status (fst (updateRecord env req w)) \<noteq> 200"
  then show "records (snd (updateRecord env req w)) = records w"
    by (rule updateRecord_failure_records)
next
  assume "\<exists>s. body_vitals (body req) = Some s \<and> s \<noteq> [] \<and> JSON_parse env s = None"
  then obtain s where s: "body_vitals (body req) = Some s" "s \<noteq> []" "JSON_parse env s = None"
    by (elim exE conjE)
  show "status (fst (updateRecord env req w)) \<noteq> 200"
    using s by (rule updateRecord_syntax_error(2))
  show "snd (updateRecord env req w) = w"
    using s by (rule updateRecord_syntax_error(1))
next
  assume "status (fst (route_post env h w)) \<noteq> 201"
  then show "records (snd (route_post env h w)) = records w"
    by (rule route_post_records_fail)
next
  assume "status (fst (route_put env h w)) \<noteq> 200"
  then show "records (snd (route_put env h w)) = records w"
    by (rule route_put_records_fail)
qed


theorem C7_failure_commits_nothing_witness:
  "status (fst (createRecord exampleEnv createNoTitle exampleWorld)) \<noteq> 201
   \<and> snd (createRecord exampleEnv createNoTitle exampleWorld) = exampleWorld
   \<and> body_vitals (body badVitalsUpdate) = Some ''{oops''
   \<and> JSON_parse exampleEnv ''{oops'' = None
   \<and> status (fst (updateRecord exampleEnv badVitalsUpdate uploadedWorld)) \<noteq> 200
   \<and> snd (updateRecord exampleEnv badVitalsUpdate uploadedWorld) = uploadedWorld
   \<and> records (snd (updateRecord exampleEnv badVitalsUpdate uploadedWorld)) = records uploadedWorld
   \<and> status (fst (route_post exampleEnv badVitalsPost exampleWorld)) \<noteq> 201
   \<and> records (snd (route_post exampleEnv badVitalsPost exampleWorld)) = records exampleWorld
   \<and> status (fst (route_put exampleEnv bobPut exampleWorld)) \<noteq> 200
   \<and> records (snd (route_put exampleEnv bobPut exampleWorld)) = records exampleWorld"
proof -
  have a: "status (fst (createRecord exampleEnv createNoTitle exampleWorld)) \<noteq> 201"
    by (simp add: createRecord_unfold parseVitalsField_def save_def validationFails_def
          buildRecord_doc createNoTitle_def noBody_def createFailed_def)
  have b: "body_vitals (body badVitalsUpdate) = Some ''{oops''" "''{oops'' \<noteq> []"
    "JSON_parse exampleEnv ''{oops'' = None"
    by (simp_all add: badVitalsUpdate_def noBody_def exampleEnv_def exampleParse_def)
  then have b': "\<exists>s. body_vitals (body badVitalsUpdate) = Some s \<and> s \<noteq> []
                    \<and> JSON_parse exampleEnv s = None"
    by blast
  have c: "status (fst (route_post exampleEnv badVitalsPost exampleWorld)) \<noteq> 201"
    by (simp add: example_badVitalsPost_run createFailed_def)
  have d: "status (fst (route_put exampleEnv bobPut exampleWorld)) \<noteq> 200"
    by (simp add: route_put_not_owner [OF example_bobPut] notAuthorized_def)
  note first = C7_failure_commits_nothing [of exampleEnv createNoTitle exampleWorld badVitalsPost]
  note second = C7_failure_commits_nothing [of exampleEnv badVitalsUpdate uploadedWorld bobPut]
  from first a have 1: "snd (createRecord exampleEnv createNoTitle exampleWorld) = exampleWorld"
    by blast
  from second b' have 2: "status (fst (updateRecord exampleEnv badVitalsUpdate uploadedWorld)) \<noteq> 200"
    "snd (updateRecord exampleEnv badVitalsUpdate uploadedWorld) = uploadedWorld"
    by blast+
  from second 2(1) have 3:
    "records (snd (updateRecord exampleEnv badVitalsUpdate uploadedWorld)) = records uploadedWorld"
    by blast
  from first c have 4:
    "records (snd (route_post exampleEnv badVitalsPost exampleWorld)) = records exampleWorld"
    by blast
  from C7_failure_commits_nothing [of exampleEnv createNoTitle exampleWorld bobPut] d have 5:
    "records (snd (route_put exampleEnv bobPut exampleWorld)) = records exampleWorld"
    by blast
  from a b(1,3) 1 2 3 4 5 c d show ?thesis by blast
qed

section \<open>Attachment replacement\<close>

text \<open>
  Alice sends a PUT for her record \<open>r1\<close> with a new lab report and the empty title. The
  handler unlinks the old lab report, then \<^verbatim>\<open>save()\<close> rejects the document: the answer
  is 500, the stored slot still holds the old reference, and the file it names is gone.
  The slot has no live reference after this update.
\<close>

theorem C8_failed_update_dangling_counterexample:
  "part_labReport emptyTitleLabPut = Some newPart
   \<and> fst (route_put exampleEnv emptyTitleLabPut exampleWorld) = updateFailed
   \<and> map_option (\<lambda>r. labReport (files r))
        (records (snd (route_put exampleEnv emptyTitleLabPut exampleWorld)) ''r1'')
       = Some ''/uploads/records/lab1.pdf''
   \<and> fullPathOf exampleEnv ''/uploads/records/lab1.pdf''
       = ''/srv/Backend/uploads/records/lab1.pdf''
   \<and> disk exampleWorld ''/srv/Backend/uploads/records/lab1.pdf'' = Some ''LAB''
   \<and> disk (snd (route_put exampleEnv emptyTitleLabPut exampleWorld))
        ''/srv/Backend/uploads/records/lab1.pdf'' = None"
proof -
  have "part_labReport emptyTitleLabPut = Some newPart"
    by (simp add: emptyTitleLabPut_def aliceLabPut_def)
  moreover have "disk exampleWorld ''/srv/Backend/uploads/records/lab1.pdf'' = Some ''LAB''"
    by (simp add: exampleWorld_def)
  moreover have "labReport (files exampleRecord) = ''/uploads/records/lab1.pdf''"
    by (simp add: exampleRecord_def)
  ultimately show ?thesis
    by (simp add: example_emptyTitleLabPut_run example_fullPaths)
qed

text \<open>
  C8, in the form that holds of the code. Each slot of \<open>files\<close> is one string, so it
  references at most one file. For a PUT by the owner that succeeds: a slot for which no
  file was sent keeps its reference; a slot for which a file was sent holds the public
  path of the new file, and nothing else, afterwards; after the writes of the upload
  middleware the effects are unlink attempts followed by the save, so the old file of a
  replaced slot is deleted before the new reference is stored; an old file that was on
  disk has an attempt in the trace, and when its unlink does not fail it is gone
  afterwards; the new reference of a replaced slot resolves to the file that was sent,
  when the public path resolves to the path the storage wrote and that path is not the
  one of a replaced old file (nor, for the lab report, the path the prescription was
  written to); and every file that is neither a replaced old file nor an upload target
  is on disk as before.
\<close>

theorem C8_attachment_replacement:
  assumes "protect env (authorization h) = Inr uid"
    and "\<not> repoFails env (FindById (url_id h))"
    and "records w (url_id h) = Some stored"
    and "user stored = uid"
    and "status (fst (route_put env h w)) = 200"
  shows "\<exists>r' evs.
           records (snd (route_put env h w)) (url_id h) = Some r'
         \<and> labReport (files r') =
             (case part_labReport h of
                None \<Rightarrow> labReport (files stored)
              | Some p \<Rightarrow> buildPublicPath ''records'' (part_filename p))
         \<and> prescription (files r') =
             (case part_prescription h of
                None \<Rightarrow> prescription (files stored)
              | Some p \<Rightarrow> buildPublicPath ''records'' (part_filename p))
         \<and> trace (snd (route_put env h w))
             = trace w @ uploadEvents env h @ evs @ [Saved (url_id h)]
         \<and> (\<forall>e\<in>set evs. \<exists>p. e = Unlinked p \<or> e = UnlinkFailed p)
         \<and> (part_labReport h \<noteq> None \<and> labReport (files stored) \<noteq> []
              \<and> disk w (fullPathOf env (labReport (files stored))) \<noteq> None
            \<longrightarrow> Unlinked (fullPathOf env (labReport (files stored))) \<in> set evs
              \<or> UnlinkFailed (fullPathOf env (labReport (files stored))) \<in> set evs)
         \<and> (part_prescription h \<noteq> None \<and> prescription (files stored) \<noteq> []
              \<and> disk w (fullPathOf env (prescription (files stored))) \<noteq> None
            \<longrightarrow> Unlinked (fullPathOf env (prescription (files stored))) \<in> set evs
              \<or> UnlinkFailed (fullPathOf env (prescription (files stored))) \<in> set evs)
         \<and> (part_labReport h \<noteq> None \<and> labReport (files stored) \<noteq> []
              \<and> \<not> unlinkFails env (fullPathOf env (labReport (files stored)))
            \<longrightarrow> disk (snd (route_put env h w))
                  (fullPathOf env (labReport (files stored))) = None)
         \<and> (part_prescription h \<noteq> None \<and> prescription (files stored) \<noteq> []
              \<and> \<not> unlinkFails env (fullPathOf env (prescription (files stored)))
            \<longrightarrow> disk (snd (route_put env h w))
                  (fullPathOf env (prescription (files stored))) = None)
         \<and> (\<forall>p. part_labReport h = Some p
                \<and> fullPathOf env (buildPublicPath ''records'' (part_filename p))
                    = path_join env [destination env ''labReport'', part_filename p]
                \<and> (labReport (files stored) = []
                   \<or> path_join env [destination env ''labReport'', part_filename p]
                       \<noteq> fullPathOf env (labReport (files stored)))
                \<and> (part_prescription h = None \<or> prescription (files stored) = []
                   \<or> path_join env [destination env ''labReport'', part_filename p]
                       \<noteq> fullPathOf env (prescription (files stored)))
                \<and> (\<forall>p'. part_prescription h = Some p' \<longrightarrow>
                      path_join env [destination env ''prescription'', part_filename p']
                        \<noteq> path_join env [destination env ''labReport'', part_filename p])
              \<longrightarrow> disk (snd (route_put env h w)) (fullPathOf env (labReport (files r')))
                    = Some (part_data p))
         \<and> (\<forall>p. part_prescription h = Some p
                \<and> fullPathOf env (buildPublicPath ''records'' (part_filename p))
                    = path_join env [destination env ''prescription'', part_filename p]
                \<and> (prescription (files stored) = []
                   \<or> path_join env [destination env ''prescription'', part_filename p]
                       \<noteq> fullPathOf env (prescription (files stored)))
                \<and> (part_labReport h = None \<or> labReport (files stored) = []
                   \<or> path_join env [destination env ''prescription'', part_filename p]
                       \<noteq> fullPathOf env (labReport (files stored)))
              \<longrightarrow> disk (snd (route_put env h w)) (fullPathOf env (prescription (files r')))
                    = Some (part_data p))
         \<and> (\<forall>q. (part_labReport h = None \<or> labReport (files stored) = []
                   \<or> q \<noteq> fullPathOf env (labReport (files stored)))
                \<and> (part_prescription h = None \<or> prescription (files stored) = []
                   \<or> q \<noteq> fullPathOf env (prescription (files stored)))
                \<and> (\<forall>p. part_labReport h = Some p \<longrightarrow>
                      q \<noteq> path_join env [destination env ''labReport'', part_filename p])
                \<and> (\<forall>p. part_prescription h = Some p \<longrightarrow>
                      q \<noteq> path_join env [destination env ''prescription'', part_filename p])
              \<longrightarrow> disk (snd (route_put env h w)) q = disk w q)"
proof -
  let ?req = "putRequest uid h"
  let ?w = "snd (upload_fields env h w)"
  have rp: "route_put env h w = updateRecord env ?req ?w"
    using assms(1) by (rule route_put_authenticated)
  have h1: "\<not> repoFails env (FindById (params_id ?req))"
    and h2: "records ?w (params_id ?req) = Some stored"
    and h3: "user stored = user_id ?req"
    and h4: "status (fst (updateRecord env ?req ?w)) = 200"
    using assms(2-5) by (simp_all add: putRequest_simps upload_fields_records rp)
  from h1 h2 h3 h4 obtain parsed where
    run: "updateRecord env ?req ?w =
       (\<lparr>status = 200,
         json = RecordJson (params_id ?req) (doc (fst (applyUpdate env ?req stored parsed ?w)))\<rparr>,
        (snd (applyUpdate env ?req stored parsed ?w))
          \<lparr>records := (records ?w)(params_id ?req \<mapsto> doc (fst (applyUpdate env ?req stored parsed ?w))),
           trace := trace (snd (applyUpdate env ?req stored parsed ?w)) @ [Saved (params_id ?req)]\<rparr>)"
    by (rule updateRecord_success)
  let ?d = "fst (applyUpdate env ?req stored parsed ?w)"
  let ?W = "snd (applyUpdate env ?req stored parsed ?w)"
  let ?evs = "replaceEvents env ?req stored ?w"
  let ?lab = "fullPathOf env (labReport (files stored))"
  let ?rx = "fullPathOf env (prescription (files stored))"
  have fl: "file_labReport (req_files ?req) = map_option part_filename (part_labReport h)"
    and fr: "file_prescription (req_files ?req) = map_option part_filename (part_prescription h)"
    by (simp_all add: putRequest_simps)
  have rec: "records (snd (route_put env h w)) (url_id h) = Some (doc ?d)"
    by (simp add: rp run putRequest_simps)
  have lab_ref: "labReport (files (doc ?d)) =
             (case part_labReport h of
                None \<Rightarrow> labReport (files stored)
              | Some p \<Rightarrow> buildPublicPath ''records'' (part_filename p))"
    by (simp add: applyUpdate_doc fl split: option.splits)
  have rx_ref: "prescription (files (doc ?d)) =
             (case part_prescription h of
                None \<Rightarrow> prescription (files stored)
              | Some p \<Rightarrow> buildPublicPath ''records'' (part_filename p))"
    by (simp add: applyUpdate_doc fr split: option.splits)
  have tr: "trace (snd (route_put env h w))
             = trace w @ uploadEvents env h @ ?evs @ [Saved (url_id h)]"
    by (simp add: rp run applyUpdate_trace upload_fields_trace putRequest_simps)
  have dk: "disk (snd (route_put env h w)) = disk ?W"
    by (simp add: rp run)
  have kinds: "\<forall>e\<in>set ?evs. \<exists>p. e = Unlinked p \<or> e = UnlinkFailed p"
    by (blast dest: replaceEvents_kinds)
  have lab_att: "part_labReport h \<noteq> None \<and> labReport (files stored) \<noteq> []
              \<and> disk w ?lab \<noteq> None
            \<longrightarrow> Unlinked ?lab \<in> set ?evs \<or> UnlinkFailed ?lab \<in> set ?evs"
  proof (intro impI, elim conjE)
    assume a: "part_labReport h \<noteq> None" "labReport (files stored) \<noteq> []" "disk w ?lab \<noteq> None"
    from a(1) obtain p where "part_labReport h = Some p" by (cases "part_labReport h") simp_all
    then have "file_labReport (req_files ?req) = Some (part_filename p)" by (simp add: fl)
    moreover from a(3) have "disk ?w ?lab \<noteq> None" by (rule upload_fields_present)
    ultimately show "Unlinked ?lab \<in> set ?evs \<or> UnlinkFailed ?lab \<in> set ?evs"
      using a(2) by (intro replaceEvents_labReport)
  qed
  have rx_att: "part_prescription h \<noteq> None \<and> prescription (files stored) \<noteq> []
              \<and> disk w ?rx \<noteq> None
            \<longrightarrow> Unlinked ?rx \<in> set ?evs \<or> UnlinkFailed ?rx \<in> set ?evs"
  proof (intro impI, elim conjE)
    assume a: "part_prescription h \<noteq> None" "prescription (files stored) \<noteq> []"
      "disk w ?rx \<noteq> None"
    from a(1) obtain p where "part_prescription h = Some p"
      by (cases "part_prescription h") simp_all
    then have "file_prescription (req_files ?req) = Some (part_filename p)" by (simp add: fr)
    moreover from a(3) have "disk ?w ?rx \<noteq> None" by (rule upload_fields_present)
    ultimately show "Unlinked ?rx \<in> set ?evs \<or> UnlinkFailed ?rx \<in> set ?evs"
      using a(2) by (intro replaceEvents_prescription)
  qed
  have lab_gone: "part_labReport h \<noteq> None \<and> labReport (files stored) \<noteq> []
              \<and> \<not> unlinkFails env ?lab
            \<longrightarrow> disk (snd (route_put env h w)) ?lab = None"
  proof (intro impI, elim conjE)
    assume a: "part_labReport h \<noteq> None" "labReport (files stored) \<noteq> []"
      "\<not> unlinkFails env ?lab"
    from a(1) obtain p where "part_labReport h = Some p" by (cases "part_labReport h") simp_all
    then have "file_labReport (req_files ?req) = Some (part_filename p)" by (simp add: fl)
    from applyUpdate_labReport_gone [OF this a(2) a(3)]
    show "disk (snd (route_put env h w)) ?lab = None" by (simp add: dk)
  qed
  have rx_gone: "part_prescription h \<noteq> None \<and> prescription (files stored) \<noteq> []
              \<and> \<not> unlinkFails env ?rx
            \<longrightarrow> disk (snd (route_put env h w)) ?rx = None"
  proof (intro impI, elim conjE)
    assume a: "part_prescription h \<noteq> None" "prescription (files stored) \<noteq> []"
      "\<not> unlinkFails env ?rx"
    from a(1) obtain p where "part_prescription h = Some p"
      by (cases "part_prescription h") simp_all
    then have "file_prescription (req_files ?req) = Some (part_filename p)" by (simp add: fr)
    from applyUpdate_prescription_gone [OF this a(2) a(3)]
    show "disk (snd (route_put env h w)) ?rx = None" by (simp add: dk)
  qed
  have kept: "disk (snd (route_put env h w)) q = disk ?w q"
    if "part_labReport h = None \<or> labReport (files stored) = [] \<or> q \<noteq> ?lab"
      and "part_prescription h = None \<or> prescription (files stored) = [] \<or> q \<noteq> ?rx" for q
    using that by (simp add: dk applyUpdate_disk_kept fl fr)
  have lab_live: "\<forall>p. part_labReport h = Some p
                \<and> fullPathOf env (buildPublicPath ''records'' (part_filename p))
                    = path_join env [destination env ''labReport'', part_filename p]
                \<and> (labReport (files stored) = []
                   \<or> path_join env [destination env ''labReport'', part_filename p] \<noteq> ?lab)
                \<and> (part_prescription h = None \<or> prescription (files stored) = []
                   \<or> path_join env [destination env ''labReport'', part_filename p] \<noteq> ?rx)
                \<and> (\<forall>p'. part_prescription h = Some p' \<longrightarrow>
                      path_join env [destination env ''prescription'', part_filename p']
                        \<noteq> path_join env [destination env ''labReport'', part_filename p])
              \<longrightarrow> disk (snd (route_put env h w)) (fullPathOf env (labReport (files (doc ?d))))
                    = Some (part_data p)"
  proof (intro allI impI, elim conjE)
    fix p :: Part
    let ?P = "path_join env [destination env ''labReport'', part_filename p]"
    assume a: "part_labReport h = Some p"
      "fullPathOf env (buildPublicPath ''records'' (part_filename p)) = ?P"
      "labReport (files stored) = [] \<or> ?P \<noteq> ?lab"
      "part_prescription h = None \<or> prescription (files stored) = [] \<or> ?P \<noteq> ?rx"
      "\<forall>p'. part_prescription h = Some p' \<longrightarrow>
          path_join env [destination env ''prescription'', part_filename p'] \<noteq> ?P"
    have "fullPathOf env (labReport (files (doc ?d))) = ?P"
      by (simp add: lab_ref a(1) a(2))
    moreover have "disk (snd (route_put env h w)) ?P = disk ?w ?P"
      using a(3,4) by (intro kept) simp_all
    moreover have "disk ?w ?P = Some (part_data p)"
      using a(1,5) by (rule upload_fields_labReport_written)
    ultimately show "disk (snd (route_put env h w)) (fullPathOf env (labReport (files (doc ?d))))
                    = Some (part_data p)"
      by simp
  qed
  have rx_live: "\<forall>p. part_prescription h = Some p
                \<and> fullPathOf env (buildPublicPath ''records'' (part_filename p))
                    = path_join env [destination env ''prescription'', part_filename p]
                \<and> (prescription (files stored) = []
                   \<or> path_join env [destination env ''prescription'', part_filename p] \<noteq> ?rx)
                \<and> (part_labReport h = None \<or> labReport (files stored) = []
                   \<or> path_join env [destination env ''prescription'', part_filename p] \<noteq> ?lab)
              \<longrightarrow> disk (snd (route_put env h w))
                    (fullPathOf env (prescription (files (doc ?d))))
                    = Some (part_data p)"
  proof (intro allI impI, elim conjE)
    fix p :: Part
    let ?P = "path_join env [destination env ''prescription'', part_filename p]"
    assume a: "part_prescription h = Some p"
      "fullPathOf env (buildPublicPath ''records'' (part_filename p)) = ?P"
      "prescription (files stored) = [] \<or> ?P \<noteq> ?rx"
      "part_labReport h = None \<or> labReport (files stored) = [] \<or> ?P \<noteq> ?lab"
    have "fullPathOf env (prescription (files (doc ?d))) = ?P"
      by (simp add: rx_ref a(1) a(2))
    moreover have "disk (snd (route_put env h w)) ?P = disk ?w ?P"
      using a(3,4) by (intro kept) simp_all
    moreover have "disk ?w ?P = Some (part_data p)"
      using a(1) by (rule upload_fields_prescription_written)
    ultimately show "disk (snd (route_put env h w))
                    (fullPathOf env (prescription (files (doc ?d))))
                    = Some (part_data p)"
      by simp
  qed
  have other: "\<forall>q. (part_labReport h = None \<or> labReport (files stored) = [] \<or> q \<noteq> ?lab)
                \<and> (part_prescription h = None \<or> prescription (files stored) = [] \<or> q \<noteq> ?rx)
                \<and> (\<forall>p. part_labReport h = Some p \<longrightarrow>
                      q \<noteq> path_join env [destination env ''labReport'', part_filename p])
                \<and> (\<forall>p. part_prescription h = Some p \<longrightarrow>
                      q \<noteq> path_join env [destination env ''prescription'', part_filename p])
              \<longrightarrow> disk (snd (route_put env h w)) q = disk w q"
  proof (intro allI impI, elim conjE)
    fix q
    assume a: "part_labReport h = None \<or> labReport (files stored) = [] \<or> q \<noteq> ?lab"
      "part_prescription h = None \<or> prescription (files stored) = [] \<or> q \<noteq> ?rx"
      "\<forall>p. part_labReport h = Some p \<longrightarrow>
          q \<noteq> path_join env [destination env ''labReport'', part_filename p]"
      "\<forall>p. part_prescription h = Some p \<longrightarrow>
          q \<noteq> path_join env [destination env ''prescription'', part_filename p]"
    have "disk (snd (route_put env h w)) q = disk ?w q"
      using a(1,2) by (rule kept)
    also have "\<dots> = disk w q"
      using a(3,4) by (rule upload_fields_disk_other)
    finally show "disk (snd (route_put env h w)) q = disk w q" .
  qed
  show ?thesis
    apply (rule exI [of _ "doc ?d"])
    apply (rule exI [of _ ?evs])
    apply (intro conjI)
               apply (fact rec)
              apply (fact lab_ref)
             apply (fact rx_ref)
            apply (fact tr)
           apply (fact kinds)
          apply (fact lab_att)
         apply (fact rx_att)
        apply (fact lab_gone)
       apply (fact rx_gone)
      apply (fact lab_live)
     apply (fact rx_live)
    apply (fact other)
    done
qed


theorem C8_attachment_replacement_witness:
  "protect exampleEnv (authorization aliceLabPut) = Inr ''alice''
   \<and> records exampleWorld (url_id aliceLabPut) = Some exampleRecord
   \<and> status (fst (route_put exampleEnv aliceLabPut exampleWorld)) = 200
   \<and> part_labReport aliceLabPut = Some newPart
   \<and> map_option (\<lambda>r. labReport (files r))
        (records (snd (route_put exampleEnv aliceLabPut exampleWorld)) ''r1'')
       = Some ''/uploads/records/1700-abc.pdf''
   \<and> map_option (\<lambda>r. prescription (files r))
        (records (snd (route_put exampleEnv aliceLabPut exampleWorld)) ''r1'')
       = Some ''/uploads/records/rx1.pdf''
   \<and> disk (snd (route_put exampleEnv aliceLabPut exampleWorld))
        ''/srv/Backend/uploads/records/lab1.pdf'' = None
   \<and> fullPathOf exampleEnv ''/uploads/records/1700-abc.pdf''
       = ''/srv/Backend/uploads/records/1700-abc.pdf''
   \<and> disk (snd (route_put exampleEnv aliceLabPut exampleWorld))
        ''/srv/Backend/uploads/records/1700-abc.pdf'' = Some ''DATA''
   \<and> disk (snd (route_put exampleEnv aliceLabPut exampleWorld))
        ''/srv/Backend/uploads/records/rx1.pdf'' = Some ''RX''
   \<and> trace (snd (route_put exampleEnv aliceLabPut exampleWorld))
       = [FileWritten ''/srv/Backend/uploads/records/1700-abc.pdf'',
          Unlinked ''/srv/Backend/uploads/records/lab1.pdf'',
          Saved ''r1'']"
proof -
  have facts: "part_labReport aliceLabPut = Some newPart"
    "part_prescription aliceLabPut = None"
    "url_id aliceLabPut = ''r1''"
    "labReport (files exampleRecord) = ''/uploads/records/lab1.pdf''"
    "prescription (files exampleRecord) = ''/uploads/records/rx1.pdf''"
    "part_filename newPart = ''1700-abc.pdf''"
    "part_data newPart = ''DATA''"
    "buildPublicPath ''records'' ''1700-abc.pdf'' = ''/uploads/records/1700-abc.pdf''"
    by (simp_all add: aliceLabPut_def newPart_def exampleRecord_def buildPublicPath_def)
  have before: "disk exampleWorld ''/srv/Backend/uploads/records/rx1.pdf'' = Some ''RX''"
    by (simp add: exampleWorld_def)
  let ?w' = "snd (route_put exampleEnv aliceLabPut exampleWorld)"
  let ?lab = "fullPathOf exampleEnv (labReport (files exampleRecord))"
  let ?rx = "fullPathOf exampleEnv (prescription (files exampleRecord))"
  from C8_attachment_replacement [OF example_aliceLabPut example_aliceLabPut_ok]
  show ?thesis
  proof (elim exE conjE)
    fix r' evs
    assume rec: "records ?w' (url_id aliceLabPut) = Some r'"
    assume lab: "labReport (files r') =
             (case part_labReport aliceLabPut of
                None \<Rightarrow> labReport (files exampleRecord)
              | Some p \<Rightarrow> buildPublicPath ''records'' (part_filename p))"
    assume rx: "prescription (files r') =
             (case part_prescription aliceLabPut of
                None \<Rightarrow> prescription (files exampleRecord)
              | Some p \<Rightarrow> buildPublicPath ''records'' (part_filename p))"
    assume gone: "part_labReport aliceLabPut \<noteq> None \<and> labReport (files exampleRecord) \<noteq> []
              \<and> \<not> unlinkFails exampleEnv ?lab
            \<longrightarrow> disk ?w' ?lab = None"
    assume live: "\<forall>p. part_labReport aliceLabPut = Some p
                \<and> fullPathOf exampleEnv (buildPublicPath ''records'' (part_filename p))
                    = path_join exampleEnv [destination exampleEnv ''labReport'', part_filename p]
                \<and> (labReport (files exampleRecord) = []
                   \<or> path_join exampleEnv [destination exampleEnv ''labReport'', part_filename p]
                       \<noteq> ?lab)
                \<and> (part_prescription aliceLabPut = None \<or> prescription (files exampleRecord) = []
                   \<or> path_join exampleEnv [destination exampleEnv ''labReport'', part_filename p]
                       \<noteq> ?rx)
                \<and> (\<forall>p'. part_prescription aliceLabPut = Some p' \<longrightarrow>
                      path_join exampleEnv [destination exampleEnv ''prescription'', part_filename p']
                        \<noteq> path_join exampleEnv [destination exampleEnv ''labReport'', part_filename p])
              \<longrightarrow> disk ?w' (fullPathOf exampleEnv (labReport (files r'))) = Some (part_data p)"
    assume other: "\<forall>q. (part_labReport aliceLabPut = None \<or> labReport (files exampleRecord) = []
                   \<or> q \<noteq> ?lab)
                \<and> (part_prescription aliceLabPut = None \<or> prescription (files exampleRecord) = []
                   \<or> q \<noteq> ?rx)
                \<and> (\<forall>p. part_labReport aliceLabPut = Some p \<longrightarrow>
                      q \<noteq> path_join exampleEnv [destination exampleEnv ''labReport'', part_filename p])
                \<and> (\<forall>p. part_prescription aliceLabPut = Some p \<longrightarrow>
                      q \<noteq> path_join exampleEnv [destination exampleEnv ''prescription'', part_filename p])
              \<longrightarrow> disk ?w' q = disk exampleWorld q"
    have r1: "records ?w' ''r1'' = Some r'"
      using rec by (simp add: facts)
    have r2: "labReport (files r') = ''/uploads/records/1700-abc.pdf''"
      using lab by (simp add: facts)
    have r3: "prescription (files r') = ''/uploads/records/rx1.pdf''"
      using rx by (simp add: facts)
    have g: "disk ?w' ''/srv/Backend/uploads/records/lab1.pdf'' = None"
      using gone by (simp add: facts example_fullPaths exampleEnv_reliable)
    have "disk ?w' (fullPathOf exampleEnv (labReport (files r'))) = Some (part_data newPart)"
      using live [rule_format, of newPart]
      by (simp add: facts example_fullPaths example_fullPath_new example_upload_path)
    then have l: "disk ?w' ''/srv/Backend/uploads/records/1700-abc.pdf'' = Some ''DATA''"
      by (simp add: r2 example_fullPath_new facts)
    have "disk ?w' ''/srv/Backend/uploads/records/rx1.pdf''
            = disk exampleWorld ''/srv/Backend/uploads/records/rx1.pdf''"
      using other [rule_format, of "''/srv/Backend/uploads/records/rx1.pdf''"]
      by (simp add: facts example_fullPaths example_upload_path)
    with before have k: "disk ?w' ''/srv/Backend/uploads/records/rx1.pdf'' = Some ''RX''"
      by simp
    from example_aliceLabPut(1,3) example_aliceLabPut_ok facts(1) r1 r2 r3 g
      example_fullPath_new l k example_aliceLabPut_trace
    show ?thesis by simp
  qed
qed

section \<open>Account deletion\<close>

text \<open>
  C9 fails on the code. \<^verbatim>\<open>deleteAccount\<close> removes the user's records from the
  repository with \<^verbatim>\<open>Record.deleteMany\<close> and never touches the disk: after Alice deletes
  her account her record is gone and both of its attachment files are still there, with
  no unlink attempted, whereas \<^verbatim>\<open>deleteRecord\<close> on the same record removes the files.
\<close>

theorem C9_cascade_leaves_attachments:
  "fst (deleteAccount exampleEnv aliceRequest exampleWorld) = accountDeleted
   \<and> records (snd (deleteAccount exampleEnv aliceRequest exampleWorld)) ''r1'' = None
   \<and> disk (snd (deleteAccount exampleEnv aliceRequest exampleWorld))
        ''/srv/Backend/uploads/records/lab1.pdf'' = Some ''LAB''
   \<and> disk (snd (deleteAccount exampleEnv aliceRequest exampleWorld))
        ''/srv/Backend/uploads/records/rx1.pdf'' = Some ''RX''
   \<and> trace (snd (deleteAccount exampleEnv aliceRequest exampleWorld))
       = [DeletedMany ''alice'', UserDeleted ''alice'']
   \<and> trace (snd (deleteRecord exampleEnv aliceRequest exampleWorld))
       = [Unlinked ''/srv/Backend/uploads/records/lab1.pdf'',
          Unlinked ''/srv/Backend/uploads/records/rx1.pdf'',
          DeletedOne ''r1'']"
  by (simp add: example_delete_trace deleteAccount_disk)
     (simp add: deleteAccount_def deleteManyByUser_def Let_def exampleEnv_reliable
        aliceRequest_def exampleWorld_def exampleRecord_def)

section \<open>Empty vitals\<close>

text \<open>
  C10. A request whose \<^verbatim>\<open>vitals\<close> field is the empty string is handled as one without
  the field, by create and by update: the field is not parsed and nothing is thrown for
  it, the outcome is the one of the same request with the field removed, and it is the
  same whatever \<^verbatim>\<open>JSON.parse\<close> would do. A create that succeeds stores the empty
  vitals structure, and an update by the owner that succeeds leaves the stored vitals as
  they were.
\<close>

theorem C10_empty_vitals_as_absent:
  assumes "body_vitals (body req) = Some []"
  shows "parseVitalsField env (body_vitals (body req)) = Inr None
       \<and> createRecord env req w
           = createRecord env (req\<lparr>body := (body req)\<lparr>body_vitals := None\<rparr>\<rparr>) w
       \<and> updateRecord env req w
           = updateRecord env (req\<lparr>body := (body req)\<lparr>body_vitals := None\<rparr>\<rparr>) w
       \<and> (\<forall>p. createRecord (env\<lparr>JSON_parse := p\<rparr>) req w = createRecord env req w)
       \<and> (\<forall>p. updateRecord (env\<lparr>JSON_parse := p\<rparr>) req w = updateRecord env req w)
       \<and> (status (fst (createRecord env req w)) = 201 \<longrightarrow>
            map_option vitals (records (snd (createRecord env req w)) (newObjectId env))
              = Some emptyVitals)
       \<and> (\<forall>stored. \<not> repoFails env (FindById (params_id req))
              \<and> records w (params_id req) = Some stored
              \<and> user stored = user_id req
              \<and> status (fst (updateRecord env req w)) = 200
            \<longrightarrow> map_option vitals (records (snd (updateRecord env req w)) (params_id req))
                  = Some (vitals stored))"
proof -
  have parse: "parseVitalsField env (body_vitals (body req)) = Inr None"
    using assms by (simp add: parseVitalsField_falsy)
  show ?thesis
  proof (intro conjI allI impI)
    show "parseVitalsField env (body_vitals (body req)) = Inr None"
      by (fact parse)
    show "createRecord env req w
           = createRecord env (req\<lparr>body := (body req)\<lparr>body_vitals := None\<rparr>\<rparr>) w"
      using assms by (rule createRecord_vitals_absent)
    show "updateRecord env req w
           = updateRecord env (req\<lparr>body := (body req)\<lparr>body_vitals := None\<rparr>\<rparr>) w"
      using assms by (rule updateRecord_vitals_absent)
    show "createRecord (env\<lparr>JSON_parse := p\<rparr>) req w = createRecord env req w" for p
      using assms by (simp add: createRecord_JSON_parse_unused)
    show "updateRecord (env\<lparr>JSON_parse := p\<rparr>) req w = updateRecord env req w" for p
      using assms by (simp add: updateRecord_JSON_parse_unused)
    show "map_option vitals (records (snd (createRecord env req w)) (newObjectId env))
              = Some emptyVitals"
      if "status (fst (createRecord env req w)) = 201"
      using parse that by (rule createRecord_default_vitals)
    show "map_option vitals (records (snd (updateRecord env req w)) (params_id req))
                  = Some (vitals stored)"
      if "\<not> repoFails env (FindById (params_id req))
              \<and> records w (params_id req) = Some stored
              \<and> user stored = user_id req
              \<and> status (fst (updateRecord env req w)) = 200" for stored
      using that parse by (intro updateRecord_keeps_vitals) simp_all
  qed
qed


theorem C10_empty_vitals_as_absent_witness:
  "body_vitals (body createEmptyVitals) = Some []
   \<and> status (fst (createRecord exampleEnv createEmptyVitals exampleWorld)) = 201
   \<and> createRecord exampleEnv createEmptyVitals exampleWorld
       = createRecord exampleEnv createOk exampleWorld
   \<and> map_option vitals
        (records (snd (createRecord exampleEnv createEmptyVitals exampleWorld)) ''r2'')
       = Some emptyVitals
   \<and> body_vitals (body emptyVitalsUpdate) = Some []
   \<and> status (fst (updateRecord exampleEnv emptyVitalsUpdate exampleWorld)) = 200
   \<and> updateRecord exampleEnv emptyVitalsUpdate exampleWorld
       = updateRecord exampleEnv aliceRequest exampleWorld
   \<and> map_option vitals
        (records (snd (updateRecord exampleEnv emptyVitalsUpdate exampleWorld)) ''r1'')
       = Some \<lparr>bloodPressure = Some ''120/80'', heartRate = Some ''70'',
               bloodSugar = None, weight = None, height = None\<rparr>"
proof -
  have c0: "body_vitals (body createEmptyVitals) = Some []"
    by (simp add: createEmptyVitals_def)
  have c1: "status (fst (createRecord exampleEnv createEmptyVitals exampleWorld)) = 201"
    by (simp add: createRecord_unfold parseVitalsField_falsy save_def validationFails_def
          buildRecord_doc buildRecord_vitals_default c0 exampleEnv_reliable)
       (simp add: createEmptyVitals_def createOk_def noBody_def exampleEnv_def exampleWorld_def)
  have c2: "createEmptyVitals\<lparr>body := (body createEmptyVitals)\<lparr>body_vitals := None\<rparr>\<rparr> = createOk"
    by (simp add: createEmptyVitals_def createOk_def noBody_def)
  have c3: "newObjectId exampleEnv = ''r2''"
    by (simp add: exampleEnv_def)
  note create = C10_empty_vitals_as_absent [OF c0, of exampleEnv exampleWorld]
  from create have
    "createRecord exampleEnv createEmptyVitals exampleWorld
       = createRecord exampleEnv
           (createEmptyVitals\<lparr>body := (body createEmptyVitals)\<lparr>body_vitals := None\<rparr>\<rparr>)
           exampleWorld"
    by blast
  then have ca:
    "createRecord exampleEnv createEmptyVitals exampleWorld
       = createRecord exampleEnv createOk exampleWorld"
    by (simp only: c2)
  from create c1 have
    "map_option vitals
        (records (snd (createRecord exampleEnv createEmptyVitals exampleWorld))
           (newObjectId exampleEnv))
       = Some emptyVitals"
    by blast
  then have cb:
    "map_option vitals
        (records (snd (createRecord exampleEnv createEmptyVitals exampleWorld)) ''r2'')
       = Some emptyVitals"
    by (simp only: c3)
  have u0: "body_vitals (body emptyVitalsUpdate) = Some []"
    by (simp add: emptyVitalsUpdate_def)
  have u: "\<not> repoFails exampleEnv (FindById (params_id emptyVitalsUpdate))"
    "records exampleWorld (params_id emptyVitalsUpdate) = Some exampleRecord"
    "user exampleRecord = user_id emptyVitalsUpdate"
    by (simp_all add: example_defs emptyVitalsUpdate_def)
  have valid: "\<not> validationFails (fst (applyUpdate exampleEnv emptyVitalsUpdate exampleRecord None exampleWorld))"
    by (simp add: validationFails_def applyUpdate_doc)
       (simp add: applyUpdate_def Let_def replaceLabReport_doc replacePrescription_doc
          assignTextFields_rest emptyVitalsUpdate_def aliceRequest_def noBody_def
          exampleRecord_def)
  have u1: "status (fst (updateRecord exampleEnv emptyVitalsUpdate exampleWorld)) = 200"
    by (simp add: updateRecord_owner [OF u] parseVitalsField_falsy u0 save_def valid
          applyUpdate_doc exampleEnv_reliable)
  have u2: "emptyVitalsUpdate\<lparr>body := (body emptyVitalsUpdate)\<lparr>body_vitals := None\<rparr>\<rparr>
              = aliceRequest"
    by (simp add: emptyVitalsUpdate_def aliceRequest_def noBody_def)
  have u3: "params_id emptyVitalsUpdate = ''r1''"
    "vitals exampleRecord = \<lparr>bloodPressure = Some ''120/80'', heartRate = Some ''70'',
               bloodSugar = None, weight = None, height = None\<rparr>"
    by (simp_all add: emptyVitalsUpdate_def aliceRequest_def exampleRecord_def)
  note update = C10_empty_vitals_as_absent [OF u0, of exampleEnv exampleWorld]
  from update have
    "updateRecord exampleEnv emptyVitalsUpdate exampleWorld
       = updateRecord exampleEnv
           (emptyVitalsUpdate\<lparr>body := (body emptyVitalsUpdate)\<lparr>body_vitals := None\<rparr>\<rparr>)
           exampleWorld"
    by blast
  then have ua:
    "updateRecord exampleEnv emptyVitalsUpdate exampleWorld
       = updateRecord exampleEnv aliceRequest exampleWorld"
    by (simp only: u2)
  from update u u1 have
    "map_option vitals
        (records (snd (updateRecord exampleEnv emptyVitalsUpdate exampleWorld))
           (params_id emptyVitalsUpdate))
       = Some (vitals exampleRecord)"
    by blast
  then have ub:
    "map_option vitals
        (records (snd (updateRecord exampleEnv emptyVitalsUpdate exampleWorld)) ''r1'')
       = Some \<lparr>bloodPressure = Some ''120/80'', heartRate = Some ''70'',
               bloodSugar = None, weight = None, height = None\<rparr>"
    by (simp only: u3)
  from c0 c1 ca cb u0 u1 ua ub show ?thesis by blast
qed

end
